theory Spec2Isabelle
  imports Main
begin

section \<open>Room heights compliance checker\<close>

text \<open>
  A shallow embedding of \<^verbatim>\<open>src/tools/checker_room_heights.py\<close>. The module has one
  function, \<^verbatim>\<open>check_room_heights(model, **kwargs)\<close>. It selects the spaces of a building
  model, looks for a height among the property sets of each space, classifies the space as
  residential or commercial, compares the height with the minimum of that use type, and
  returns one result dictionary per space followed by a summary dictionary.

  The embedding follows the function statement by statement. What the interpreter does is
  written out where the function relies on it: \<^verbatim>\<open>str\<close> of a dictionary, \<^verbatim>\<open>str.lower\<close>,
  the substring test \<^verbatim>\<open>in\<close>, \<^verbatim>\<open>isinstance(v, (int, float))\<close>, the comparison \<^verbatim>\<open>>=\<close>
  and the two ways a number is put into an f-string. An exception is a value \<open>Inl e\<close>.
\<close>

subsection \<open>Strings\<close>

text \<open>
  A Python string is a sequence of code points; the embedding covers the code points
  0 to 255, one \<^typ>\<open>char\<close> each. \<open>lower\<close> is \<^verbatim>\<open>str.lower\<close> on that range: the letters
  A to Z and the capital letters of Latin-1 (192 to 222 without the multiplication sign 215)
  move up by 32, every other code point stays.
\<close>

definition lower_char :: "char \<Rightarrow> char" where
  "lower_char c =
     (let n = (of_char c :: nat)
      in if (65 \<le> n \<and> n \<le> 90) \<or> (192 \<le> n \<and> n \<le> 222 \<and> n \<noteq> 215)
         then char_of (n + 32) else c)"

definition lower :: "string \<Rightarrow> string" where
  "lower s = map lower_char s"

text \<open>\<open>contains s sub\<close> is the Python test \<^verbatim>\<open>sub in s\<close>: \<open>sub\<close> occurs in \<open>s\<close> as a
  contiguous run of characters.\<close>

fun starts_with :: "string \<Rightarrow> string \<Rightarrow> bool" where
  "starts_with s [] = True"
| "starts_with [] (p # ps) = False"
| "starts_with (c # cs) (p # ps) = (c = p \<and> starts_with cs ps)"

fun contains :: "string \<Rightarrow> string \<Rightarrow> bool" where
  "contains [] sub = (sub = [])"
| "contains (c # cs) sub = (starts_with (c # cs) sub \<or> contains cs sub)"

text \<open>\<open>join sep xs\<close> is \<^verbatim>\<open>sep.join(xs)\<close>.\<close>

fun join :: "string \<Rightarrow> string list \<Rightarrow> string" where
  "join sep [] = []"
| "join sep [x] = x"
| "join sep (x # y # zs) = x @ sep @ join sep (y # zs)"

text \<open>Decimal text of an integer, as \<^verbatim>\<open>str(n)\<close> gives it. (The optional limit of the
  interpreter on the number of digits of such a conversion is not part of the embedding.)\<close>

definition digit_char :: "nat \<Rightarrow> char" where
  "digit_char d = char_of (48 + d)"

fun str_of_nat :: "nat \<Rightarrow> string" where
  "str_of_nat n =
     (if n < 10 then [digit_char n] else str_of_nat (n div 10) @ [digit_char (n mod 10)])"

declare str_of_nat.simps [simp del]

definition str_of_int :: "int \<Rightarrow> string" where
  "str_of_int i = (if i < 0 then CHR ''-'' # str_of_nat (nat (- i)) else str_of_nat (nat i))"

text \<open>
  \<^verbatim>\<open>repr\<close> of a string: single quotes, unless the string holds a single quote and no
  double quote; the quote in use and the backslash are escaped, tab, newline and carriage
  return become \<^verbatim>\<open>\t\<close>, \<^verbatim>\<open>\n\<close>, \<^verbatim>\<open>\r\<close>, and every other code point that is not printable
  becomes \<^verbatim>\<open>\xhh\<close>.
\<close>

definition hex_digit :: "nat \<Rightarrow> char" where
  "hex_digit d = (if d < 10 then char_of (48 + d) else char_of (87 + d))"

definition is_printable :: "char \<Rightarrow> bool" where
  "is_printable c =
     (let n = (of_char c :: nat)
      in \<not> (n < 32 \<or> n = 127 \<or> (128 \<le> n \<and> n \<le> 160) \<or> n = 173))"

definition repr_char :: "char \<Rightarrow> char \<Rightarrow> string" where
  "repr_char quote c =
     (if c = quote \<or> c = CHR 0x5C then [CHR 0x5C, c]
      else if c = CHR 0x09 then [CHR 0x5C, CHR ''t'']
      else if c = CHR 0x0A then [CHR 0x5C, CHR ''n'']
      else if c = CHR 0x0D then [CHR 0x5C, CHR ''r'']
      else if \<not> is_printable c
        then [CHR 0x5C, CHR ''x'', hex_digit (of_char c div 16), hex_digit (of_char c mod 16)]
      else [c])"

definition repr_str :: "string \<Rightarrow> string" where
  "repr_str s =
     (let quote = (if CHR 0x27 \<in> set s \<and> CHR 0x22 \<notin> set s then CHR 0x22 else CHR 0x27)
      in quote # concat (map (repr_char quote) s) @ [quote])"

subsection \<open>Values\<close>

text \<open>
  The values a property or a keyword argument can hold. Python's \<^verbatim>\<open>float\<close> is the type
  parameter \<open>'f\<close>: the function only prints floats and compares them, so these operations
  are handed to the embedding as the record \<open>float_ops\<close>, and every theorem below holds for
  whatever they are, IEEE doubles included. Integers are unbounded, as in Python.
\<close>

datatype 'f pyval =
    VNone
  | VBool bool
  | VInt int
  | VFloat 'f
  | VStr string
  | VList "'f pyval list"
  | VDict "(string \<times> 'f pyval) list"

record 'f float_ops =
  float_repr :: "'f \<Rightarrow> string"               \<comment> \<open>\<^verbatim>\<open>repr(x)\<close>, which is also \<^verbatim>\<open>str(x)\<close>\<close>
  float_fmt0 :: "'f \<Rightarrow> string"               \<comment> \<open>\<^verbatim>\<open>format(x, ".0f")\<close>\<close>
  float_ge :: "'f \<Rightarrow> 'f \<Rightarrow> bool"          \<comment> \<open>\<^verbatim>\<open>x >= y\<close> on two floats\<close>
  float_ge_int :: "'f \<Rightarrow> int \<Rightarrow> bool"     \<comment> \<open>\<^verbatim>\<open>x >= n\<close>, a float against an int\<close>
  int_ge_float :: "int \<Rightarrow> 'f \<Rightarrow> bool"     \<comment> \<open>\<^verbatim>\<open>n >= x\<close>, an int against a float\<close>

text \<open>\<^verbatim>\<open>repr(v)\<close>; for a dictionary this is what \<^verbatim>\<open>str(properties)\<close> returns.\<close>

fun py_repr :: "'f float_ops \<Rightarrow> 'f pyval \<Rightarrow> string" where
  "py_repr fo VNone = ''None''"
| "py_repr fo (VBool b) = (if b then ''True'' else ''False'')"
| "py_repr fo (VInt n) = str_of_int n"
| "py_repr fo (VFloat x) = float_repr fo x"
| "py_repr fo (VStr s) = repr_str s"
| "py_repr fo (VList vs) = ''['' @ join '', '' (map (py_repr fo) vs) @ '']''"
| "py_repr fo (VDict kvs) =
     ''{'' @ join '', '' (map (\<lambda>(k, v). repr_str k @ '': '' @ py_repr fo v) kvs) @ ''}''"

text \<open>\<^verbatim>\<open>str(v)\<close>, which an f-string field without a format applies: a string is itself,
  every other value is its \<^verbatim>\<open>repr\<close>.\<close>

fun py_str :: "'f float_ops \<Rightarrow> 'f pyval \<Rightarrow> string" where
  "py_str fo (VStr s) = s"
| "py_str fo v = py_repr fo v"

subsection \<open>Numbers\<close>

text \<open>
  \<open>as_number v\<close> is \<open>Some\<close> exactly when \<^verbatim>\<open>isinstance(v, (int, float))\<close> holds.
  \<^verbatim>\<open>bool\<close> is a subclass of \<^verbatim>\<open>int\<close>, so \<^verbatim>\<open>True\<close> and \<^verbatim>\<open>False\<close> pass the test; under
  \<^verbatim>\<open>>=\<close> and under the format \<^verbatim>\<open>.0f\<close>, the only uses the function makes of a height,
  they are the integers 1 and 0 (\<open>int_or_float\<close>).
\<close>

datatype 'f number = NBool bool | NInt int | NFloat 'f

fun as_number :: "'f pyval \<Rightarrow> 'f number option" where
  "as_number (VBool b) = Some (NBool b)"
| "as_number (VInt n) = Some (NInt n)"
| "as_number (VFloat x) = Some (NFloat x)"
| "as_number v = None"

fun int_or_float :: "'f number \<Rightarrow> int + 'f" where
  "int_or_float (NBool b) = Inl (if b then 1 else 0)"
| "int_or_float (NInt n) = Inl n"
| "int_or_float (NFloat x) = Inr x"

datatype error = TypeError | OverflowError

text \<open>\<^verbatim>\<open>height_value >= required_height\<close>. The left side is a number; when the right side
  is not one (a string, \<^verbatim>\<open>None\<close>, a list, a dictionary) the comparison raises
  \<^verbatim>\<open>TypeError\<close>.\<close>

fun ge_values :: "'f float_ops \<Rightarrow> int + 'f \<Rightarrow> int + 'f \<Rightarrow> bool" where
  "ge_values fo (Inl a) (Inl b) = (b \<le> a)"
| "ge_values fo (Inl a) (Inr y) = int_ge_float fo a y"
| "ge_values fo (Inr x) (Inl b) = float_ge_int fo x b"
| "ge_values fo (Inr x) (Inr y) = float_ge fo x y"

definition num_ge :: "'f float_ops \<Rightarrow> 'f number \<Rightarrow> 'f number \<Rightarrow> bool" where
  "num_ge fo a b = ge_values fo (int_or_float a) (int_or_float b)"

definition py_ge :: "'f float_ops \<Rightarrow> 'f number \<Rightarrow> 'f pyval \<Rightarrow> error + bool" where
  "py_ge fo h required =
     (case as_number required of
        Some r \<Rightarrow> Inr (num_ge fo h r)
      | None \<Rightarrow> Inl TypeError)"

text \<open>
  \<^verbatim>\<open>f"{height_value:.0f}"\<close>. An \<^verbatim>\<open>int\<close> is first converted to a float: exact up to 53
  bits, beyond that rounded to 53 significant bits, ties to even, and \<^verbatim>\<open>OverflowError\<close>
  when the rounded value reaches \<open>2 ^ 1024\<close>. The float so obtained is a whole number, and
  the format prints all its digits.
\<close>

fun bit_length :: "nat \<Rightarrow> nat" where
  "bit_length n = (if n = 0 then 0 else Suc (bit_length (n div 2)))"

declare bit_length.simps [simp del]

definition round_to_double :: "nat \<Rightarrow> nat" where
  "round_to_double a =
     (let k = bit_length a
      in if k \<le> 53 then a
         else let sh = k - 53;
                  q = a div 2 ^ sh;
                  r = a mod 2 ^ sh;
                  half = 2 ^ (sh - 1);
                  q' = (if half < r \<or> (r = half \<and> odd q) then q + 1 else q)
              in q' * 2 ^ sh)"

definition float_of_int :: "int \<Rightarrow> error + int" where
  "float_of_int n =
     (let a = round_to_double (nat \<bar>n\<bar>)
      in if 2 ^ 1024 \<le> a then Inl OverflowError
         else Inr (if n < 0 then - int a else int a))"

definition format_0f :: "'f float_ops \<Rightarrow> 'f number \<Rightarrow> error + string" where
  "format_0f fo h =
     (case int_or_float h of
        Inl n \<Rightarrow> (case float_of_int n of Inl e \<Rightarrow> Inl e | Inr r \<Rightarrow> Inr (str_of_int r))
      | Inr x \<Rightarrow> Inr (float_fmt0 fo x))"

subsection \<open>The building model and the result records\<close>

text \<open>
  A space as the function reads it: \<^verbatim>\<open>space.id()\<close>, the attributes \<^verbatim>\<open>GlobalId\<close>,
  \<^verbatim>\<open>Name\<close> and \<^verbatim>\<open>LongName\<close> (\<open>None\<close> when \<^verbatim>\<open>getattr\<close> falls back to its default), and
  the dictionary \<^verbatim>\<open>get_psets(space)\<close>, kept in iteration order: property set name to
  (property name to value).
\<close>

type_synonym 'f properties = "(string \<times> 'f pyval) list"

record 'f space =
  entity_id :: nat
  GlobalId :: "string option"
  Name :: "string option"
  LongName :: "string option"
  psets :: "(string \<times> 'f properties) list"

record 'f storey =
  storey_id :: nat
  Elevation :: "'f pyval"

record 'f model =
  ifc_spaces :: "'f space list"
  ifc_storeys :: "'f storey list"

record result =
  element_id :: "string option"
  element_type :: string
  element_name :: string
  element_name_long :: "string option"
  check_status :: string
  actual_value :: string
  required_value :: string
  comment :: "string option"
  log :: "string option"

text \<open>\<^verbatim>\<open>model.by_type(...)\<close> is a query on the model handle. The handle is the one thing
  that outlives a call, so the two queries are written as state readers: they return the
  entities and the handle as it is afterwards.\<close>

definition by_type_IfcSpace :: "'f model \<Rightarrow> 'f space list \<times> 'f model" where
  "by_type_IfcSpace model = (ifc_spaces model, model)"

definition by_type_IfcBuildingStorey :: "'f model \<Rightarrow> 'f storey list \<times> 'f model" where
  "by_type_IfcBuildingStorey model = (ifc_storeys model, model)"

text \<open>\<^verbatim>\<open>kwargs.get(key, default)\<close>.\<close>

definition kwargs_get :: "(string \<rightharpoonup> 'f pyval) \<Rightarrow> string \<Rightarrow> 'f pyval \<Rightarrow> 'f pyval" where
  "kwargs_get kwargs key dflt = (case kwargs key of Some v \<Rightarrow> v | None \<Rightarrow> dflt)"

subsection \<open>Storey elevations (lines 54 to 60)\<close>

fun build_storey_elevations ::
  "'f storey list \<Rightarrow> (nat \<rightharpoonup> 'f pyval) \<Rightarrow> (nat \<rightharpoonup> 'f pyval)" where
  "build_storey_elevations [] storey_elevations = storey_elevations"
| "build_storey_elevations (storey # rest) storey_elevations =
     (let elevation = Elevation storey
      in build_storey_elevations rest
           (if elevation \<noteq> VNone then storey_elevations(storey_id storey \<mapsto> elevation)
            else storey_elevations))"

subsection \<open>Height discovery (lines 76 to 87)\<close>

text \<open>The inner loop over the items of one property set: it stops, by \<^verbatim>\<open>break\<close>, at the
  first property whose name contains "height" and whose value is a number; \<open>None\<close> when
  the loop runs to its end without an assignment.\<close>

fun scan_properties :: "'f properties \<Rightarrow> 'f number option" where
  "scan_properties [] = None"
| "scan_properties ((prop_name, prop_value) # rest) =
     (case (if contains (lower prop_name) ''height'' then as_number prop_value else None) of
        Some h \<Rightarrow> Some h
      | None \<Rightarrow> scan_properties rest)"

text \<open>The outer loop over the property sets. Its state is the pair of \<^verbatim>\<open>height_value\<close>
  and \<^verbatim>\<open>height_found_in_properties\<close>. The \<^verbatim>\<open>break\<close> above leaves the inner loop only:
  the outer loop goes on to the next property set, and an assignment there replaces the
  height found before.\<close>

fun scan_psets ::
  "'f float_ops \<Rightarrow> (string \<times> 'f properties) list \<Rightarrow> 'f number option \<times> bool
     \<Rightarrow> 'f number option \<times> bool" where
  "scan_psets fo [] st = st"
| "scan_psets fo ((pset_name, properties) # rest) (height_value, height_found_in_properties) =
     (if contains (lower (py_str fo (VDict properties))) ''height''
      then scan_psets fo rest
             (case scan_properties properties of
                Some h \<Rightarrow> Some h
              | None \<Rightarrow> height_value,
              True)
      else scan_psets fo rest (height_value, height_found_in_properties))"

definition discover_height ::
  "'f float_ops \<Rightarrow> (string \<times> 'f properties) list \<Rightarrow> 'f number option" where
  "discover_height fo ps = fst (scan_psets fo ps (None, False))"

subsection \<open>Use type (lines 89 to 105)\<close>

text \<open>The loop over the property sets, left by \<^verbatim>\<open>break\<close> at the first set whose text
  mentions "residential" or "dwelling"; the value is \<^verbatim>\<open>is_residential\<close> after the loop.\<close>

fun residential_in_psets :: "'f float_ops \<Rightarrow> (string \<times> 'f properties) list \<Rightarrow> bool" where
  "residential_in_psets fo [] = False"
| "residential_in_psets fo ((pset_name, properties) # rest) =
     (let props_str = lower (py_str fo (VDict properties))
      in if contains props_str ''residential'' \<or> contains props_str ''dwelling'' then True
         else residential_in_psets fo rest)"

definition residential_terms :: "string list" where
  "residential_terms = [''residential'', ''dwelling'', ''apartment'', ''bedroom'', ''family'']"

text \<open>\<^verbatim>\<open>is_residential\<close> after line 105. The function assigns \<^verbatim>\<open>use_type\<close> together with
  \<^verbatim>\<open>is_residential\<close> each time, so \<open>use_type_of\<close> gives the one from the other.\<close>

definition is_residential :: "'f float_ops \<Rightarrow> (string \<times> 'f properties) list \<Rightarrow> string \<Rightarrow> bool" where
  "is_residential fo ps space_name =
     (let from_psets = (if ps \<noteq> [] then residential_in_psets fo ps else False)
      in if \<not> from_psets \<and> space_name \<noteq> []
         then (let name_lower = lower space_name
               in if list_ex (\<lambda>term. contains name_lower term) residential_terms then True
                  else from_psets)
         else from_psets)"

definition use_type_of :: "bool \<Rightarrow> string" where
  "use_type_of residential = (if residential then ''Residential'' else ''Commercial'')"

subsection \<open>Status of one space (lines 107 to 141)\<close>

record loop_state =
  results :: "result list"
  passed_count :: nat
  failed_count :: nat
  warning_count :: nat

text \<open>Lines 29 and 62 to 64.\<close>

definition initial_state :: loop_state where
  "initial_state = \<lparr>results = [], passed_count = 0, failed_count = 0, warning_count = 0\<rparr>"

text \<open>Lines 110 to 127: the status, the text of the actual value, the comment, and the
  counter that goes up. The comparison is evaluated first, then the height is formatted;
  either can raise.\<close>

definition determine_status ::
  "'f float_ops \<Rightarrow> 'f number option \<Rightarrow> 'f pyval \<Rightarrow> string \<Rightarrow> loop_state
     \<Rightarrow> error + (string \<times> string \<times> string option \<times> loop_state)" where
  "determine_status fo height_value required_height use_type st =
     (case height_value of
        Some h \<Rightarrow>
          (case py_ge fo h required_height of
             Inl e \<Rightarrow> Inl e
           | Inr ge \<Rightarrow>
               (case format_0f fo h of
                  Inl e \<Rightarrow> Inl e
                | Inr height_text \<Rightarrow>
                    if ge
                    then Inr (''pass'', height_text @ ''mm'', None,
                              st\<lparr>passed_count := passed_count st + 1\<rparr>)
                    else Inr (''fail'', height_text @ ''mm'',
                              Some (''Space height '' @ height_text
                                    @ ''mm is below required minimum ''
                                    @ py_str fo required_height @ ''mm for '' @ use_type),
                              st\<lparr>failed_count := failed_count st + 1\<rparr>)))
      | None \<Rightarrow>
          Inr (''warning'', ''Height not specified'',
               Some ''No explicit height property found for space. Cannot verify compliance.'',
               st\<lparr>warning_count := warning_count st + 1\<rparr>))"

definition space_name_of :: "'f space \<Rightarrow> string" where
  "space_name_of space =
     (case Name space of
        Some n \<Rightarrow> if n \<noteq> [] then n else ''Space #'' @ str_of_nat (entity_id space)
      | None \<Rightarrow> ''Space #'' @ str_of_nat (entity_id space))"

text \<open>The dictionary of lines 129 to 139.\<close>

definition result_dict ::
  "'f float_ops \<Rightarrow> 'f space \<Rightarrow> 'f pyval \<Rightarrow> string \<Rightarrow> string \<Rightarrow> string \<Rightarrow> string option
     \<Rightarrow> result" where
  "result_dict fo space required_height use_type status actual cmt =
     \<lparr>element_id = GlobalId space,
      element_type = ''IfcSpace'',
      element_name = space_name_of space,
      element_name_long = LongName space,
      check_status = status,
      actual_value = actual,
      required_value = ''>= '' @ py_str fo required_height @ ''mm ('' @ use_type @ '')'',
      comment = cmt,
      log = Some (''use_type='' @ use_type @ '', properties_checked=True'')\<rparr>"

text \<open>The body of the loop over the spaces (lines 68 to 141). The attribute read into
  \<^verbatim>\<open>explicit_height\<close> (line 73) is never used and is left out.\<close>

definition check_space ::
  "'f float_ops \<Rightarrow> 'f pyval \<Rightarrow> 'f pyval \<Rightarrow> 'f space \<Rightarrow> loop_state \<Rightarrow> error + loop_state" where
  "check_space fo RESIDENTIAL_MIN_HEIGHT COMMERCIAL_MIN_HEIGHT space st =
     (let height_value = discover_height fo (psets space);
          residential = is_residential fo (psets space) (space_name_of space);
          use_type = use_type_of residential;
          required_height =
            (if residential then RESIDENTIAL_MIN_HEIGHT else COMMERCIAL_MIN_HEIGHT)
      in case determine_status fo height_value required_height use_type st of
           Inl e \<Rightarrow> Inl e
         | Inr (status, actual, cmt, st') \<Rightarrow>
             Inr (st'\<lparr>results :=
                    results st' @ [result_dict fo space required_height use_type status actual cmt]\<rparr>))"

fun check_spaces ::
  "'f float_ops \<Rightarrow> 'f pyval \<Rightarrow> 'f pyval \<Rightarrow> 'f space list \<Rightarrow> loop_state \<Rightarrow> error + loop_state" where
  "check_spaces fo res com [] st = Inr st"
| "check_spaces fo res com (space # rest) st =
     (case check_space fo res com space st of
        Inl e \<Rightarrow> Inl e
      | Inr st' \<Rightarrow> check_spaces fo res com rest st')"

text \<open>What one pass of the loop body appends to \<^verbatim>\<open>results\<close>, read off a pass that
  starts from the empty list: the dictionary of one space, or the exception.\<close>

definition body_results ::
  "'f float_ops \<Rightarrow> 'f pyval \<Rightarrow> 'f pyval \<Rightarrow> 'f space \<Rightarrow> error + result list" where
  "body_results fo res com space =
     (case check_space fo res com space initial_state of
        Inl e \<Rightarrow> Inl e
      | Inr st \<Rightarrow> Inr (results st))"

subsection \<open>The function\<close>

definition no_spaces_record :: result where
  "no_spaces_record =
     \<lparr>element_id = None,
      element_type = ''Summary'',
      element_name = ''Room Heights Check'',
      element_name_long = None,
      check_status = ''log'',
      actual_value = ''0 spaces found'',
      required_value = ''>= 1 space'',
      comment = Some ''No IfcSpace elements found in model'',
      log = None\<rparr>"

definition summary_record :: "nat \<Rightarrow> loop_state \<Rightarrow> result" where
  "summary_record total_spaces st =
     \<lparr>element_id = None,
      element_type = ''Summary'',
      element_name = ''Room Heights Check Summary'',
      element_name_long = None,
      check_status = (if failed_count st = 0 then ''pass'' else ''fail''),
      actual_value =
        str_of_nat (passed_count st) @ '' pass, '' @ str_of_nat (failed_count st)
        @ '' fail, '' @ str_of_nat (warning_count st) @ '' warning'',
      required_value =
        ''All '' @ str_of_nat total_spaces @ '' spaces meet minimum height requirements'',
      comment =
        Some (''Checked '' @ str_of_nat total_spaces @ '' space(s): ''
              @ str_of_nat (passed_count st) @ '' compliant, ''
              @ str_of_nat (failed_count st) @ '' non-compliant, ''
              @ str_of_nat (warning_count st) @ '' with missing data''),
      log = None\<rparr>"

text \<open>
  One call of the function, as a step on the model handle: the value returned (or the
  exception raised) and the handle after the call. \<open>check_room_heights\<close> is the value.
\<close>

definition call_check_room_heights ::
  "'f float_ops \<Rightarrow> (string \<rightharpoonup> 'f pyval) \<Rightarrow> 'f model \<Rightarrow> (error + result list) \<times> 'f model" where
  "call_check_room_heights fo kwargs model =
     (let RESIDENTIAL_MIN_HEIGHT = kwargs_get kwargs ''residential_min_height'' (VInt 2700);
          COMMERCIAL_MIN_HEIGHT = kwargs_get kwargs ''commercial_min_height'' (VInt 2800);
          SLOPED_CEILING_MIN_HEIGHT = kwargs_get kwargs ''sloped_min_height'' (VInt 2100);
          (spaces, model1) = by_type_IfcSpace model
      in if spaces = [] then (Inr [no_spaces_record], model1)
         else
           let (storeys, model2) = by_type_IfcBuildingStorey model1;
               storey_elevations = build_storey_elevations storeys Map.empty
           in (case check_spaces fo RESIDENTIAL_MIN_HEIGHT COMMERCIAL_MIN_HEIGHT spaces
                      initial_state of
                 Inl e \<Rightarrow> Inl e
               | Inr st \<Rightarrow> Inr (results st @ [summary_record (length spaces) st]),
               model2))"

definition check_room_heights ::
  "'f float_ops \<Rightarrow> 'f model \<Rightarrow> (string \<rightharpoonup> 'f pyval) \<Rightarrow> error + result list" where
  "check_room_heights fo model kwargs = fst (call_check_room_heights fo kwargs model)"

text \<open>
  For examples: the floats with a whole value \<open>n\<close> of less than 16 digits, each stood for
  by \<open>n\<close>. Python prints such a float as \<open>n\<close> followed by \<^verbatim>\<open>.0\<close>, formats it with
  \<^verbatim>\<open>.0f\<close> as \<open>n\<close>, and compares it as \<open>n\<close>.
\<close>

definition whole_floats :: "int float_ops" where
  "whole_floats =
     \<lparr>float_repr = (\<lambda>x. str_of_int x @ ''.0''),
      float_fmt0 = str_of_int,
      float_ge = (\<lambda>x y. y \<le> x),
      float_ge_int = (\<lambda>x n. n \<le> x),
      int_ge_float = (\<lambda>n x. x \<le> n)\<rparr>"

subsection \<open>Vocabulary of the statements\<close>

text \<open>How many records of a list carry a given status.\<close>

definition count_status :: "string \<Rightarrow> result list \<Rightarrow> nat" where
  "count_status status rs = length (filter (\<lambda>r. check_status r = status) rs)"

text \<open>An unaccented letter, small or capital: the characters that \<open>lower\<close> sends to one
  of a to z. \<open>repr\<close> leaves them as they are.\<close>

definition is_ascii_letter :: "char \<Rightarrow> bool" where
  "is_ascii_letter c =
     (let n = (of_char c :: nat) in (65 \<le> n \<and> n \<le> 90) \<or> (97 \<le> n \<and> n \<le> 122))"

text \<open>The state after a pass of the loop body, from the state before it and the state the
  same pass reaches from the initial state.\<close>

definition add_state :: "loop_state \<Rightarrow> loop_state \<Rightarrow> loop_state" where
  "add_state st d =
     \<lparr>results = results st @ results d,
      passed_count = passed_count st + passed_count d,
      failed_count = failed_count st + failed_count d,
      warning_count = warning_count st + warning_count d\<rparr>"

text \<open>
  The use type in the words of the specification (section 4.1, step 3), to compare with
  \<open>is_residential\<close>: Residential if any property group's serialized representation
  contains "residential" or "dwelling"; else Residential if the display name contains one of
  the five keywords; else Commercial.
\<close>

definition spec_use_type ::
  "'f float_ops \<Rightarrow> (string \<times> 'f properties) list \<Rightarrow> string \<Rightarrow> string" where
  "spec_use_type fo ps display_name =
     (if list_ex (\<lambda>(pset_name, props).
                    contains (lower (py_str fo (VDict props))) ''residential'' \<or>
                    contains (lower (py_str fo (VDict props))) ''dwelling'') ps
      then ''Residential''
      else if list_ex (\<lambda>keyword. contains (lower display_name) keyword)
                [''residential'', ''dwelling'', ''apartment'', ''bedroom'', ''family'']
      then ''Residential''
      else ''Commercial'')"

subsection \<open>Example models\<close>

text \<open>Three spaces after the scenarios of the specification: an office without property
  sets, a bedroom 2650 high, and a flat 2750 high that only its properties mark as a
  dwelling; and two storeys.\<close>

definition office :: "int space" where
  "office =
     \<lparr>entity_id = 101, GlobalId = Some ''0aOffice'', Name = Some ''Office 101'',
      LongName = None, psets = []\<rparr>"

definition bedroom :: "int space" where
  "bedroom =
     \<lparr>entity_id = 102, GlobalId = Some ''0bBedroom'', Name = Some ''Bedroom 2'',
      LongName = Some ''Second bedroom'',
      psets = [(''Pset_SpaceCommon'', [(''id'', VInt 7), (''Height'', VInt 2650)])]\<rparr>"

definition flat :: "int space" where
  "flat =
     \<lparr>entity_id = 103, GlobalId = None, Name = None, LongName = None,
      psets = [(''Pset_Use'', [(''Dwelling Type'', VStr ''flat''), (''Height'', VFloat 2750)])]\<rparr>"

definition example_model :: "int model" where
  "example_model =
     \<lparr>ifc_spaces = [office, bedroom, flat],
      ifc_storeys = [\<lparr>storey_id = 1, Elevation = VFloat 0\<rparr>,
                     \<lparr>storey_id = 2, Elevation = VNone\<rparr>]\<rparr>"

text \<open>What the function returns for \<open>example_model\<close> without keyword arguments.\<close>

definition example_output :: "result list" where
  "example_output =
     [\<lparr>element_id = Some ''0aOffice'', element_type = ''IfcSpace'',
       element_name = ''Office 101'', element_name_long = None,
       check_status = ''warning'', actual_value = ''Height not specified'',
       required_value = ''>= 2800mm (Commercial)'',
       comment =
         Some ''No explicit height property found for space. Cannot verify compliance.'',
       log = Some ''use_type=Commercial, properties_checked=True''\<rparr>,
      \<lparr>element_id = Some ''0bBedroom'', element_type = ''IfcSpace'',
       element_name = ''Bedroom 2'', element_name_long = Some ''Second bedroom'',
       check_status = ''fail'', actual_value = ''2650mm'',
       required_value = ''>= 2700mm (Residential)'',
       comment =
         Some ''Space height 2650mm is below required minimum 2700mm for Residential'',
       log = Some ''use_type=Residential, properties_checked=True''\<rparr>,
      \<lparr>element_id = None, element_type = ''IfcSpace'',
       element_name = ''Space #103'', element_name_long = None,
       check_status = ''pass'', actual_value = ''2750mm'',
       required_value = ''>= 2700mm (Residential)'', comment = None,
       log = Some ''use_type=Residential, properties_checked=True''\<rparr>,
      \<lparr>element_id = None, element_type = ''Summary'',
       element_name = ''Room Heights Check Summary'', element_name_long = None,
       check_status = ''fail'', actual_value = ''1 pass, 1 fail, 1 warning'',
       required_value = ''All 3 spaces meet minimum height requirements'',
       comment =
         Some ''Checked 3 space(s): 1 compliant, 1 non-compliant, 1 with missing data'',
       log = None\<rparr>]"

text \<open>A space with a height in each of two property sets, and a space whose height
  property holds a boolean.\<close>

definition two_heights :: "int space" where
  "two_heights =
     \<lparr>entity_id = 104, GlobalId = None, Name = Some ''Office 104'', LongName = None,
      psets = [(''Pset_A'', [(''Height'', VInt 2000)]),
               (''Pset_B'', [(''Height'', VInt 3000)])]\<rparr>"

definition flagged :: "int space" where
  "flagged =
     \<lparr>entity_id = 105, GlobalId = None, Name = Some ''Bedroom 5'', LongName = None,
      psets = [(''Pset_A'', [(''Height'', VBool True)])]\<rparr>"

section \<open>Properties\<close>

subsection \<open>The shape of a run\<close>

lemma check_room_heights_empty:
  "ifc_spaces m = [] \<Longrightarrow> check_room_heights fo m kw = Inr [no_spaces_record]"
  by (simp add: check_room_heights_def call_check_room_heights_def by_type_IfcSpace_def)

lemma check_room_heights_nonempty:
  "ifc_spaces m \<noteq> [] \<Longrightarrow>
   check_room_heights fo m kw =
     (case check_spaces fo (kwargs_get kw ''residential_min_height'' (VInt 2700))
             (kwargs_get kw ''commercial_min_height'' (VInt 2800)) (ifc_spaces m) initial_state of
        Inl e \<Rightarrow> Inl e
      | Inr st \<Rightarrow> Inr (results st @ [summary_record (length (ifc_spaces m)) st]))"
  by (simp add: check_room_heights_def call_check_room_heights_def by_type_IfcSpace_def
      by_type_IfcBuildingStorey_def Let_def split: sum.splits)

lemma check_space_add:
  "check_space fo res com s st =
     (case check_space fo res com s initial_state of
        Inl e \<Rightarrow> Inl e
      | Inr d \<Rightarrow> Inr (add_state st d))"
  by (cases st) (auto simp: check_space_def determine_status_def initial_state_def add_state_def Let_def
      split: option.splits sum.splits)

lemma count_status_simps:
  "count_status x [] = 0"
  "count_status x (rs @ rs') = count_status x rs + count_status x rs'"
  "count_status x [r] = (if check_status r = x then 1 else 0)"
  by (simp_all add: count_status_def)

lemma determine_status_None:
  "determine_status fo None req ut st =
     Inr (''warning'', ''Height not specified'',
          Some ''No explicit height property found for space. Cannot verify compliance.'',
          st\<lparr>warning_count := warning_count st + 1\<rparr>)"
  by (simp add: determine_status_def)

lemma determine_status_Some:
  assumes "determine_status fo (Some H) req ut st = Inr (status, actual, cmt, st')"
  shows "\<exists>T txt. as_number req = Some T \<and> format_0f fo H = Inr txt \<and> actual = txt @ ''mm'' \<and>
           (if num_ge fo H T
            then status = ''pass'' \<and> cmt = None \<and> st' = st\<lparr>passed_count := passed_count st + 1\<rparr>
            else status = ''fail'' \<and>
                 cmt = Some (''Space height '' @ txt @ ''mm is below required minimum ''
                             @ py_str fo req @ ''mm for '' @ ut) \<and>
                 st' = st\<lparr>failed_count := failed_count st + 1\<rparr>)"
proof (cases "as_number req")
  case None
  with assms show ?thesis
    by (simp add: determine_status_def py_ge_def)
next
  case (Some T)
  show ?thesis
  proof (cases "format_0f fo H")
    case (Inl e)
    with assms Some show ?thesis
      by (simp add: determine_status_def py_ge_def)
  next
    case (Inr htext)
    with assms Some show ?thesis
      by (cases "num_ge fo H T") (simp_all add: determine_status_def py_ge_def)
  qed
qed

lemma check_space_unfold:
  "check_space fo res com s st =
     (case determine_status fo (discover_height fo (psets s))
             (if is_residential fo (psets s) (space_name_of s) then res else com)
             (use_type_of (is_residential fo (psets s) (space_name_of s))) st of
        Inl e \<Rightarrow> Inl e
      | Inr (status, actual, cmt, st') \<Rightarrow>
          Inr (st'\<lparr>results := results st' @
                 [result_dict fo s (if is_residential fo (psets s) (space_name_of s) then res else com)
                    (use_type_of (is_residential fo (psets s) (space_name_of s)))
                    status actual cmt]\<rparr>))"
  by (simp add: check_space_def Let_def)

lemma check_space_initial:
  assumes "check_space fo res com s initial_state = Inr d"
  shows "\<exists>r. results d = [r] \<and> element_type r = ''IfcSpace'' \<and>
           (check_status r = ''pass'' \<or> check_status r = ''fail'' \<or> check_status r = ''warning'') \<and>
           passed_count d = count_status ''pass'' [r] \<and>
           failed_count d = count_status ''fail'' [r] \<and>
           warning_count d = count_status ''warning'' [r]"
proof -
  define req where "req = (if is_residential fo (psets s) (space_name_of s) then res else com)"
  define ut where "ut = use_type_of (is_residential fo (psets s) (space_name_of s))"
  from assms obtain status actual cmt st' where
    ds: "determine_status fo (discover_height fo (psets s)) req ut initial_state
         = Inr (status, actual, cmt, st')"
    and d: "d = st'\<lparr>results := results st' @ [result_dict fo s req ut status actual cmt]\<rparr>"
    unfolding check_space_unfold req_def [symmetric] ut_def [symmetric]
    by (auto split: sum.splits)
  define r where "r = result_dict fo s req ut status actual cmt"
  have r: "element_type r = ''IfcSpace''" "check_status r = status"
    by (simp_all add: r_def result_dict_def)
  have d': "d = st'\<lparr>results := results st' @ [r]\<rparr>"
    using d by (simp add: r_def)
  have cases: "(status = ''pass'' \<and> st' = initial_state\<lparr>passed_count := passed_count initial_state + 1\<rparr>)
      \<or> (status = ''fail'' \<and> st' = initial_state\<lparr>failed_count := failed_count initial_state + 1\<rparr>)
      \<or> (status = ''warning'' \<and> st' = initial_state\<lparr>warning_count := warning_count initial_state + 1\<rparr>)"
  proof (cases "discover_height fo (psets s)")
    case None
    with ds show ?thesis by (simp add: determine_status_None)
  next
    case (Some H)
    from determine_status_Some [OF ds [unfolded Some]] show ?thesis
      by (metis (full_types))
  qed
  have "results d = [r] \<and> element_type r = ''IfcSpace'' \<and>
           (check_status r = ''pass'' \<or> check_status r = ''fail'' \<or> check_status r = ''warning'') \<and>
           passed_count d = count_status ''pass'' [r] \<and>
           failed_count d = count_status ''fail'' [r] \<and>
           warning_count d = count_status ''warning'' [r]"
    using cases
  proof (elim disjE conjE)
    assume "status = ''pass''" "st' = initial_state\<lparr>passed_count := passed_count initial_state + 1\<rparr>"
    with d' r show ?thesis
      by (simp add: initial_state_def count_status_simps)
  next
    assume "status = ''fail''" "st' = initial_state\<lparr>failed_count := failed_count initial_state + 1\<rparr>"
    with d' r show ?thesis
      by (simp add: initial_state_def count_status_simps)
  next
    assume "status = ''warning''" "st' = initial_state\<lparr>warning_count := warning_count initial_state + 1\<rparr>"
    with d' r show ?thesis
      by (simp add: initial_state_def count_status_simps)
  qed
  then show ?thesis by blast
qed

lemma check_spaces_run:
  assumes "check_spaces fo res com ss st = Inr st'"
  shows "\<exists>rs. results st' = results st @ rs \<and> length rs = length ss \<and>
           (\<forall>i<length ss. body_results fo res com (ss ! i) = Inr [rs ! i]) \<and>
           passed_count st' = passed_count st + count_status ''pass'' rs \<and>
           failed_count st' = failed_count st + count_status ''fail'' rs \<and>
           warning_count st' = warning_count st + count_status ''warning'' rs"
  using assms
proof (induction ss arbitrary: st)
  case Nil
  then show ?case by (simp add: count_status_simps)
next
  case (Cons s ss)
  from Cons.prems obtain d where
    d: "check_space fo res com s initial_state = Inr d"
    and rest: "check_spaces fo res com ss (add_state st d) = Inr st'"
    by (auto simp: check_space_add [of fo res com s st] split: sum.splits)
  from check_space_initial [OF d] obtain r where
    r: "results d = [r]" "passed_count d = count_status ''pass'' [r]"
       "failed_count d = count_status ''fail'' [r]"
       "warning_count d = count_status ''warning'' [r]"
    by blast
  from Cons.IH [OF rest] obtain rs where
    rs: "results st' = results (add_state st d) @ rs" "length rs = length ss"
        "\<forall>i<length ss. body_results fo res com (ss ! i) = Inr [rs ! i]"
        "passed_count st' = passed_count (add_state st d) + count_status ''pass'' rs"
        "failed_count st' = failed_count (add_state st d) + count_status ''fail'' rs"
        "warning_count st' = warning_count (add_state st d) + count_status ''warning'' rs"
    by blast
  have body: "body_results fo res com s = Inr [r]"
    using d r(1) by (simp add: body_results_def)
  have nth: "\<forall>i<length (s # ss). body_results fo res com ((s # ss) ! i) = Inr [(r # rs) ! i]"
    using body rs(3) by (auto simp: nth_Cons split: nat.splits)
  show ?case
    apply (rule exI [of _ "r # rs"])
    using rs r nth
    by (simp add: add_state_def count_status_def)
qed

lemma check_room_heights_run:
  assumes "check_room_heights fo m kw = Inr out" and "ifc_spaces m \<noteq> []"
  shows "\<exists>rs st. out = rs @ [summary_record (length (ifc_spaces m)) st] \<and>
           length rs = length (ifc_spaces m) \<and>
           (\<forall>i<length (ifc_spaces m).
              body_results fo (kwargs_get kw ''residential_min_height'' (VInt 2700))
                (kwargs_get kw ''commercial_min_height'' (VInt 2800)) (ifc_spaces m ! i)
              = Inr [rs ! i]) \<and>
           passed_count st = count_status ''pass'' rs \<and>
           failed_count st = count_status ''fail'' rs \<and>
           warning_count st = count_status ''warning'' rs"
proof -
  from assms obtain st where
    st: "check_spaces fo (kwargs_get kw ''residential_min_height'' (VInt 2700))
           (kwargs_get kw ''commercial_min_height'' (VInt 2800)) (ifc_spaces m) initial_state = Inr st"
    and out: "out = results st @ [summary_record (length (ifc_spaces m)) st]"
    by (auto simp: check_room_heights_nonempty split: sum.splits)
  from check_spaces_run [OF st] out show ?thesis
    by (auto simp: initial_state_def)
qed

lemma body_results_record:
  assumes "body_results fo res com s = Inr rs"
  shows "\<exists>status actual cmt.
           rs = [result_dict fo s (if is_residential fo (psets s) (space_name_of s) then res else com)
                   (use_type_of (is_residential fo (psets s) (space_name_of s))) status actual cmt] \<and>
           (case discover_height fo (psets s) of
              None \<Rightarrow>
                status = ''warning'' \<and> actual = ''Height not specified'' \<and>
                cmt = Some ''No explicit height property found for space. Cannot verify compliance.''
            | Some H \<Rightarrow>
                (\<exists>T ht. as_number (if is_residential fo (psets s) (space_name_of s) then res else com)
                          = Some T \<and>
                   format_0f fo H = Inr ht \<and> actual = ht @ ''mm'' \<and>
                   (if num_ge fo H T then status = ''pass'' \<and> cmt = None
                    else status = ''fail'' \<and>
                         cmt = Some (''Space height '' @ ht @ ''mm is below required minimum ''
                                 @ py_str fo (if is_residential fo (psets s) (space_name_of s)
                                              then res else com)
                                 @ ''mm for ''
                                 @ use_type_of (is_residential fo (psets s) (space_name_of s))))))"
proof -
  define req where "req = (if is_residential fo (psets s) (space_name_of s) then res else com)"
  define ut where "ut = use_type_of (is_residential fo (psets s) (space_name_of s))"
  from assms obtain status actual cmt st' where
    ds: "determine_status fo (discover_height fo (psets s)) req ut initial_state
         = Inr (status, actual, cmt, st')"
    and rs: "rs = results st' @ [result_dict fo s req ut status actual cmt]"
    by (auto simp: body_results_def check_space_unfold req_def ut_def split: sum.splits)
  show ?thesis
  proof (cases "discover_height fo (psets s)")
    case None
    with ds rs show ?thesis
      unfolding req_def [symmetric] ut_def [symmetric]
      by (auto simp: determine_status_None initial_state_def)
  next
    case (Some H)
    from ds [unfolded Some] determine_status_Some [of fo H req ut initial_state status actual cmt st']
    obtain T ht where
      v: "as_number req = Some T" "format_0f fo H = Inr ht" "actual = ht @ ''mm''"
         "if num_ge fo H T
          then status = ''pass'' \<and> cmt = None \<and>
               st' = initial_state\<lparr>passed_count := passed_count initial_state + 1\<rparr>
          else status = ''fail'' \<and>
               cmt = Some (''Space height '' @ ht @ ''mm is below required minimum ''
                           @ py_str fo req @ ''mm for '' @ ut) \<and>
               st' = initial_state\<lparr>failed_count := failed_count initial_state + 1\<rparr>"
      by blast
    from v(4) have "results st' = []"
      by (auto simp: initial_state_def split: if_splits)
    with rs v Some show ?thesis
      unfolding req_def [symmetric] ut_def [symmetric]
      by (auto split: if_splits)
  qed
qed

lemma nth_run:
  assumes "check_room_heights fo m kwargs = Inr out" and "i < length (ifc_spaces m)"
  shows "body_results fo (kwargs_get kwargs ''residential_min_height'' (VInt 2700))
           (kwargs_get kwargs ''commercial_min_height'' (VInt 2800)) (ifc_spaces m ! i)
         = Inr [out ! i]"
proof -
  from assms(2) have ne: "ifc_spaces m \<noteq> []" by auto
  from check_room_heights_run [OF assms(1) ne] obtain rs st where
    out: "out = rs @ [summary_record (length (ifc_spaces m)) st]"
    and len: "length rs = length (ifc_spaces m)"
    and body: "\<forall>i<length (ifc_spaces m).
              body_results fo (kwargs_get kwargs ''residential_min_height'' (VInt 2700))
                (kwargs_get kwargs ''commercial_min_height'' (VInt 2800)) (ifc_spaces m ! i)
              = Inr [rs ! i]"
    by blast
  from out len assms(2) have "out ! i = rs ! i"
    by (simp add: nth_append)
  with body assms(2) show ?thesis by simp
qed

lemma body_results_fields:
  assumes "body_results fo res com s = Inr [r]"
  shows "element_type r = ''IfcSpace''"
    and "check_status r = ''pass'' \<or> check_status r = ''fail'' \<or> check_status r = ''warning''"
    and "required_value r =
           ''>= '' @ py_str fo (if is_residential fo (psets s) (space_name_of s) then res else com)
           @ ''mm ('' @ use_type_of (is_residential fo (psets s) (space_name_of s)) @ '')''"
    and "log r = Some (''use_type='' @ use_type_of (is_residential fo (psets s) (space_name_of s))
                       @ '', properties_checked=True'')"
    and "element_id r = GlobalId s" and "element_name r = space_name_of s"
    and "element_name_long r = LongName s"
proof -
  from body_results_record [OF assms] obtain status actual cmt where
    r: "r = result_dict fo s (if is_residential fo (psets s) (space_name_of s) then res else com)
              (use_type_of (is_residential fo (psets s) (space_name_of s))) status actual cmt"
    and v: "case discover_height fo (psets s) of
              None \<Rightarrow> status = ''warning'' \<and> actual = ''Height not specified'' \<and>
                cmt = Some ''No explicit height property found for space. Cannot verify compliance.''
            | Some H \<Rightarrow>
                (\<exists>T ht. as_number (if is_residential fo (psets s) (space_name_of s) then res else com)
                          = Some T \<and>
                   format_0f fo H = Inr ht \<and> actual = ht @ ''mm'' \<and>
                   (if num_ge fo H T then status = ''pass'' \<and> cmt = None
                    else status = ''fail'' \<and>
                         cmt = Some (''Space height '' @ ht @ ''mm is below required minimum ''
                                 @ py_str fo (if is_residential fo (psets s) (space_name_of s)
                                              then res else com)
                                 @ ''mm for ''
                                 @ use_type_of (is_residential fo (psets s) (space_name_of s)))))"
    by auto
  from v have "status = ''pass'' \<or> status = ''fail'' \<or> status = ''warning''"
    by (cases "discover_height fo (psets s)") (auto split: if_splits)
  then show "check_status r = ''pass'' \<or> check_status r = ''fail'' \<or> check_status r = ''warning''"
    by (simp add: r result_dict_def)
  show "element_type r = ''IfcSpace''"
    and "required_value r =
           ''>= '' @ py_str fo (if is_residential fo (psets s) (space_name_of s) then res else com)
           @ ''mm ('' @ use_type_of (is_residential fo (psets s) (space_name_of s)) @ '')''"
    and "log r = Some (''use_type='' @ use_type_of (is_residential fo (psets s) (space_name_of s))
                       @ '', properties_checked=True'')"
    and "element_id r = GlobalId s" and "element_name r = space_name_of s"
    and "element_name_long r = LongName s"
    by (simp_all add: r result_dict_def)
qed

lemma count_status_total:
  assumes "\<forall>r\<in>set rs. check_status r = ''pass'' \<or> check_status r = ''fail''
                      \<or> check_status r = ''warning''"
  shows "count_status ''pass'' rs + count_status ''fail'' rs + count_status ''warning'' rs
         = length rs"
  using assms by (induction rs) (auto simp: count_status_def)

lemma run_records:
  assumes "check_room_heights fo m kwargs = Inr out" and "ifc_spaces m \<noteq> []"
  shows "\<exists>rs st. out = rs @ [summary_record (length (ifc_spaces m)) st] \<and>
           length rs = length (ifc_spaces m) \<and>
           (\<forall>r\<in>set rs. element_type r = ''IfcSpace'' \<and>
              (check_status r = ''pass'' \<or> check_status r = ''fail''
               \<or> check_status r = ''warning'')) \<and>
           passed_count st = count_status ''pass'' rs \<and>
           failed_count st = count_status ''fail'' rs \<and>
           warning_count st = count_status ''warning'' rs"
proof -
  from check_room_heights_run [OF assms] obtain rs st where
    out: "out = rs @ [summary_record (length (ifc_spaces m)) st]"
    and len: "length rs = length (ifc_spaces m)"
    and body: "\<forall>i<length (ifc_spaces m).
              body_results fo (kwargs_get kwargs ''residential_min_height'' (VInt 2700))
                (kwargs_get kwargs ''commercial_min_height'' (VInt 2800)) (ifc_spaces m ! i)
              = Inr [rs ! i]"
    and counts: "passed_count st = count_status ''pass'' rs"
      "failed_count st = count_status ''fail'' rs"
      "warning_count st = count_status ''warning'' rs"
    by blast
  have "\<forall>r\<in>set rs. element_type r = ''IfcSpace'' \<and>
              (check_status r = ''pass'' \<or> check_status r = ''fail''
               \<or> check_status r = ''warning'')"
  proof
    fix r assume "r \<in> set rs"
    then obtain i where i: "i < length rs" "r = rs ! i"
      by (auto simp: in_set_conv_nth)
    with body len have
      "body_results fo (kwargs_get kwargs ''residential_min_height'' (VInt 2700))
         (kwargs_get kwargs ''commercial_min_height'' (VInt 2800)) (ifc_spaces m ! i) = Inr [r]"
      by simp
    from body_results_fields(1,2) [OF this]
    show "element_type r = ''IfcSpace'' \<and>
              (check_status r = ''pass'' \<or> check_status r = ''fail''
               \<or> check_status r = ''warning'')"
      by simp
  qed
  with out len counts show ?thesis by blast
qed

lemma filter_space_records:
  assumes "\<forall>r\<in>set rs. element_type r = ''IfcSpace''"
  shows "filter (\<lambda>r. element_type r \<noteq> ''Summary'') (rs @ [summary_record n st]) = rs"
proof -
  from assms have "filter (\<lambda>r. element_type r \<noteq> ''Summary'') rs = rs"
    by (induction rs) auto
  then show ?thesis by (simp add: summary_record_def)
qed

text \<open>The comparison of two integers is the order of the integers.\<close>

lemma num_ge_int [simp]: "num_ge fo (NInt a) (NInt b) = (b \<le> a)"
  by (simp add: num_ge_def)

text \<open>A call returns when both thresholds are numbers and every discovered height can be
  formatted; an integer of less than 54 bits is formatted as it is written.\<close>

lemma bit_length_0: "bit_length 0 = 0"
  by (simp add: bit_length.simps)

lemma bit_length_bound: "a < 2 ^ k \<Longrightarrow> bit_length a \<le> k"
proof (induction k arbitrary: a)
  case 0
  then show ?case by (simp add: bit_length_0)
next
  case (Suc k)
  show ?case
  proof (cases "a = 0")
    case True
    then show ?thesis by (simp add: bit_length_0)
  next
    case False
    from Suc.prems have "a div 2 < 2 ^ k" by simp
    from Suc.IH [OF this] False show ?thesis
      by (subst bit_length.simps) simp
  qed
qed

lemma float_of_int_exact:
  assumes "\<bar>n\<bar> < 2 ^ 53"
  shows "float_of_int n = Inr n"
proof -
  from assms have small: "nat \<bar>n\<bar> < 2 ^ 53"
    by (simp add: nat_less_iff)
  then have "bit_length (nat \<bar>n\<bar>) \<le> 53"
    by (rule bit_length_bound)
  then have r: "round_to_double (nat \<bar>n\<bar>) = nat \<bar>n\<bar>"
    by (simp add: round_to_double_def)
  have "(2::nat) ^ 53 < 2 ^ 1024"
    by (rule power_strict_increasing) simp_all
  with small have big: "\<not> (2::nat) ^ 1024 \<le> nat \<bar>n\<bar>"
    by linarith
  have "(if n < 0 then - int (nat \<bar>n\<bar>) else int (nat \<bar>n\<bar>)) = n"
    by simp
  with r big show ?thesis
    unfolding float_of_int_def Let_def by (simp only: if_False)
qed

lemma format_0f_exact:
  "\<bar>n\<bar> < 2 ^ 53 \<Longrightarrow> format_0f fo (NInt n) = Inr (str_of_int n)"
  by (simp add: format_0f_def float_of_int_exact)

lemma format_0f_float: "format_0f fo (NFloat x) = Inr (float_fmt0 fo x)"
  by (simp add: format_0f_def)

lemma format_0f_bool: "format_0f fo (NBool b) = Inr (if b then ''1'' else ''0'')"
  using float_of_int_exact [of 1] float_of_int_exact [of 0]
  by (simp add: format_0f_def str_of_int_def digit_char_def str_of_nat.simps char_of_eq_iff)

lemma body_results_returns:
  assumes "as_number res \<noteq> None" and "as_number com \<noteq> None"
    and "\<forall>H. discover_height fo (psets s) = Some H \<longrightarrow> (\<exists>ht. format_0f fo H = Inr ht)"
  shows "\<exists>d. check_space fo res com s initial_state = Inr d"
proof (cases "discover_height fo (psets s)")
  case None
  then show ?thesis
    by (simp add: check_space_unfold determine_status_None)
next
  case (Some H)
  with assms(3) obtain ht where ht: "format_0f fo H = Inr ht" by blast
  from assms(1,2) obtain T where
    "as_number (if is_residential fo (psets s) (space_name_of s) then res else com) = Some T"
    by (cases "is_residential fo (psets s) (space_name_of s)") auto
  with Some ht show ?thesis
    by (simp add: check_space_unfold determine_status_def py_ge_def)
qed

lemma check_spaces_returns:
  assumes "\<forall>s\<in>set ss. \<exists>d. check_space fo res com s initial_state = Inr d"
  shows "\<exists>st'. check_spaces fo res com ss st = Inr st'"
  using assms
proof (induction ss arbitrary: st)
  case Nil
  then show ?case by simp
next
  case (Cons s ss)
  then obtain d where "check_space fo res com s initial_state = Inr d" by auto
  then have "check_space fo res com s st = Inr (add_state st d)"
    by (simp add: check_space_add [of fo res com s st])
  with Cons show ?case by simp
qed

subsection \<open>Evaluation of the examples\<close>

text \<open>The equations that evaluate a call on a concrete model, for the simplifier.\<close>

lemma char_of_eq_iff2: "(c = char_of (n::nat)) = (take_bit 8 n = of_char c)"
  using char_of_eq_iff [of n c] by auto

lemmas run_simps =
  check_room_heights_def call_check_room_heights_def by_type_IfcSpace_def
  by_type_IfcBuildingStorey_def kwargs_get_def check_space_def determine_status_def
  discover_height_def is_residential_def residential_terms_def use_type_of_def
  space_name_of_def result_dict_def initial_state_def summary_record_def py_ge_def num_ge_def
  format_0f_def float_of_int_def round_to_double_def lower_def lower_char_def repr_str_def
  repr_char_def is_printable_def str_of_int_def digit_char_def hex_digit_def whole_floats_def
  str_of_nat.simps bit_length.simps char_of_eq_iff char_of_eq_iff2 Let_def

lemmas example_defs =
  example_model_def office_def bedroom_def flat_def two_heights_def flagged_def

lemma example_run:
  "check_room_heights whole_floats example_model Map.empty = Inr example_output"
  by (simp add: example_output_def example_defs run_simps)

lemma example_heights:
  "discover_height whole_floats (psets office) = None"
  "discover_height whole_floats (psets bedroom) = Some (NInt 2650)"
  "discover_height whole_floats (psets flat) = Some (NFloat 2750)"
  "discover_height whole_floats (psets two_heights) = Some (NInt 3000)"
  "discover_height whole_floats (psets flagged) = Some (NBool True)"
  by (simp_all add: example_defs run_simps)

lemma example_use_types:
  "\<not> is_residential whole_floats (psets office) (space_name_of office)"
  "is_residential whole_floats (psets bedroom) (space_name_of bedroom)"
  "is_residential whole_floats (psets flat) (space_name_of flat)"
  "\<not> is_residential whole_floats (psets two_heights) (space_name_of two_heights)"
  "is_residential whole_floats (psets flagged) (space_name_of flagged)"
  by (simp_all add: example_defs run_simps)

subsection \<open>Threshold application\<close>

lemma record_verdict:
  assumes "check_room_heights fo m kwargs = Inr out"
    and "i < length (ifc_spaces m)"
  shows
    "let s = ifc_spaces m ! i;
         r = out ! i;
         residential = is_residential fo (psets s) (space_name_of s);
         required = (if residential
                     then kwargs_get kwargs ''residential_min_height'' (VInt 2700)
                     else kwargs_get kwargs ''commercial_min_height'' (VInt 2800))
     in case discover_height fo (psets s) of
          Some H \<Rightarrow>
            (\<exists>T ht. as_number required = Some T \<and> format_0f fo H = Inr ht \<and>
               (check_status r = ''pass'' \<longleftrightarrow> num_ge fo H T) \<and>
               (check_status r = ''fail'' \<longleftrightarrow> \<not> num_ge fo H T) \<and>
               actual_value r = ht @ ''mm'' \<and>
               comment r =
                 (if num_ge fo H T then None
                  else Some (''Space height '' @ ht @ ''mm is below required minimum ''
                             @ py_str fo required @ ''mm for '' @ use_type_of residential)))
        | None \<Rightarrow>
            check_status r = ''warning'' \<and> actual_value r = ''Height not specified''"
proof -
  define s where "s = ifc_spaces m ! i"
  define residential where "residential = is_residential fo (psets s) (space_name_of s)"
  define required where
    "required = (if residential
                 then kwargs_get kwargs ''residential_min_height'' (VInt 2700)
                 else kwargs_get kwargs ''commercial_min_height'' (VInt 2800))"
  from nth_run [OF assms] have
    "body_results fo (kwargs_get kwargs ''residential_min_height'' (VInt 2700))
       (kwargs_get kwargs ''commercial_min_height'' (VInt 2800)) s = Inr [out ! i]"
    by (simp add: s_def)
  from body_results_record [OF this] obtain status actual cmt where
    r: "out ! i = result_dict fo s required (use_type_of residential) status actual cmt"
    and v: "case discover_height fo (psets s) of
              None \<Rightarrow>
                status = ''warning'' \<and> actual = ''Height not specified'' \<and>
                cmt = Some ''No explicit height property found for space. Cannot verify compliance.''
            | Some H \<Rightarrow>
                (\<exists>T ht. as_number required = Some T \<and>
                   format_0f fo H = Inr ht \<and> actual = ht @ ''mm'' \<and>
                   (if num_ge fo H T then status = ''pass'' \<and> cmt = None
                    else status = ''fail'' \<and>
                         cmt = Some (''Space height '' @ ht @ ''mm is below required minimum ''
                                 @ py_str fo required @ ''mm for '' @ use_type_of residential)))"
    unfolding required_def residential_def by auto
  have f: "check_status (out ! i) = status" "actual_value (out ! i) = actual"
    "comment (out ! i) = cmt"
    by (simp_all add: r result_dict_def)
  have "case discover_height fo (psets s) of
          Some H \<Rightarrow>
            (\<exists>T ht. as_number required = Some T \<and> format_0f fo H = Inr ht \<and>
               (check_status (out ! i) = ''pass'' \<longleftrightarrow> num_ge fo H T) \<and>
               (check_status (out ! i) = ''fail'' \<longleftrightarrow> \<not> num_ge fo H T) \<and>
               actual_value (out ! i) = ht @ ''mm'' \<and>
               comment (out ! i) =
                 (if num_ge fo H T then None
                  else Some (''Space height '' @ ht @ ''mm is below required minimum ''
                             @ py_str fo required @ ''mm for '' @ use_type_of residential)))
        | None \<Rightarrow>
            check_status (out ! i) = ''warning'' \<and> actual_value (out ! i) = ''Height not specified''"
  proof (cases "discover_height fo (psets s)")
    case None
    with v f show ?thesis by simp
  next
    case (Some H)
    with v obtain T ht where
      "as_number required = Some T" "format_0f fo H = Inr ht" "actual = ht @ ''mm''"
      "if num_ge fo H T then status = ''pass'' \<and> cmt = None
       else status = ''fail'' \<and>
            cmt = Some (''Space height '' @ ht @ ''mm is below required minimum ''
                        @ py_str fo required @ ''mm for '' @ use_type_of residential)"
      by auto
    with Some f show ?thesis
      by (cases "num_ge fo H T") simp_all
  qed
  then show ?thesis
    unfolding Let_def s_def [symmetric] residential_def [symmetric] required_def [symmetric] .
qed

text \<open>
  C1. Take a call that returns, and the record \<open>out ! i\<close> of the space \<open>i\<close>. The required
  height is the residential threshold (the keyword argument, 2700 when it is absent) if the
  space is classified residential, and the commercial threshold (2800 when absent)
  otherwise. If a height \<open>H\<close> was discovered, the required height is a number \<open>T\<close>, the
  status is \<^verbatim>\<open>pass\<close> exactly when \<open>H >= T\<close> and \<^verbatim>\<open>fail\<close> exactly when not; on
  \<^verbatim>\<open>pass\<close> the comment is absent, on \<^verbatim>\<open>fail\<close> it states the height (as the format
  \<^verbatim>\<open>.0f\<close> prints it), the required minimum and the use type. If no height was discovered,
  the status is \<^verbatim>\<open>warning\<close> and the actual value reads "Height not specified".
\<close>

theorem C1_threshold_application:
  assumes "check_room_heights fo m kwargs = Inr out"
    and "i < length (ifc_spaces m)"
  shows
    "let s = ifc_spaces m ! i;
         r = out ! i;
         residential = is_residential fo (psets s) (space_name_of s);
         required = (if residential
                     then kwargs_get kwargs ''residential_min_height'' (VInt 2700)
                     else kwargs_get kwargs ''commercial_min_height'' (VInt 2800))
     in case discover_height fo (psets s) of
          Some H \<Rightarrow>
            (\<exists>T ht. as_number required = Some T \<and> format_0f fo H = Inr ht \<and>
               (check_status r = ''pass'' \<longleftrightarrow> num_ge fo H T) \<and>
               (check_status r = ''fail'' \<longleftrightarrow> \<not> num_ge fo H T) \<and>
               actual_value r = ht @ ''mm'' \<and>
               comment r =
                 (if num_ge fo H T then None
                  else Some (''Space height '' @ ht @ ''mm is below required minimum ''
                             @ py_str fo required @ ''mm for '' @ use_type_of residential)))
        | None \<Rightarrow>
            check_status r = ''warning'' \<and> actual_value r = ''Height not specified''"
  using assms by (rule record_verdict)

theorem C1_threshold_application_witness:
  "check_room_heights whole_floats example_model Map.empty = Inr example_output \<and>
   (1::nat) < length (ifc_spaces example_model) \<and>
   \<not> num_ge whole_floats (NInt 2650) (NInt 2700) \<and>
   check_status (example_output ! 1) = ''fail'' \<and>
   comment (example_output ! 1) =
     Some ''Space height 2650mm is below required minimum 2700mm for Residential''"
proof -
  have i: "(1::nat) < length (ifc_spaces example_model)"
    by (simp add: example_model_def)
  from C1_threshold_application [OF example_run i] example_run i show ?thesis
    by (simp add: example_model_def example_output_def example_heights example_use_types
        kwargs_get_def Let_def)
qed

subsection \<open>Height discovery\<close>

text \<open>The substring test, and what \<open>lower\<close> and \<open>repr\<close> do to a property name that
  contains "height": the text of a group mentions "height" whenever one of its property
  names does.\<close>

lemma starts_with_iff: "starts_with s p \<longleftrightarrow> (\<exists>post. s = p @ post)"
  by (induction s p rule: starts_with.induct) auto

lemma contains_iff: "contains s sub \<longleftrightarrow> (\<exists>pre post. s = pre @ sub @ post)"
proof (induction s)
  case Nil
  then show ?case by auto
next
  case (Cons c cs)
  show ?case
  proof
    assume "contains (c # cs) sub"
    then consider "starts_with (c # cs) sub" | "contains cs sub" by auto
    then show "\<exists>pre post. c # cs = pre @ sub @ post"
    proof cases
      case 1
      then obtain post where "c # cs = sub @ post" by (auto simp: starts_with_iff)
      then have "c # cs = [] @ sub @ post" by simp
      then show ?thesis by blast
    next
      case 2
      with Cons.IH obtain pre post where "cs = pre @ sub @ post" by blast
      then have "c # cs = (c # pre) @ sub @ post" by simp
      then show ?thesis by blast
    qed
  next
    assume "\<exists>pre post. c # cs = pre @ sub @ post"
    then obtain pre post where eq: "c # cs = pre @ sub @ post" by blast
    show "contains (c # cs) sub"
    proof (cases pre)
      case Nil
      with eq have "starts_with (c # cs) sub" by (auto simp: starts_with_iff)
      then show ?thesis by simp
    next
      case (Cons d pre')
      with eq have "cs = pre' @ sub @ post" by simp
      with Cons.IH have "contains cs sub" by blast
      then show ?thesis by simp
    qed
  qed
qed

lemma lower_append [simp]: "lower (a @ b) = lower a @ lower b"
  by (simp add: lower_def)

lemma lower_Cons [simp]: "lower (c # cs) = lower_char c # lower cs"
  by (simp add: lower_def)

lemma contains_embed: "contains s sub \<Longrightarrow> contains (a @ s @ b) sub"
  unfolding contains_iff
proof -
  assume "\<exists>pre post. s = pre @ sub @ post"
  then obtain pre post where "s = pre @ sub @ post" by blast
  then have "a @ s @ b = (a @ pre) @ sub @ (post @ b)" by simp
  then show "\<exists>pre post. a @ s @ b = pre @ sub @ post" by blast
qed

lemma lower_char_small:
  assumes "97 \<le> (of_char (lower_char c) :: nat)" and "(of_char (lower_char c) :: nat) \<le> 122"
  shows "is_ascii_letter c"
proof -
  define n where "n = (of_char c :: nat)"
  have n: "n < 256" by (simp add: n_def)
  show ?thesis
  proof (cases "(65 \<le> n \<and> n \<le> 90) \<or> (192 \<le> n \<and> n \<le> 222 \<and> n \<noteq> 215)")
    case True
    then have "lower_char c = char_of (n + 32)"
      by (simp add: lower_char_def n_def)
    then have "(of_char (lower_char c) :: nat) = (n + 32) mod 256" by simp
    with True have "(of_char (lower_char c) :: nat) = n + 32" by auto
    with assms True show ?thesis
      by (auto simp: is_ascii_letter_def n_def [symmetric])
  next
    case False
    then have "lower_char c = c"
      unfolding lower_char_def Let_def n_def [symmetric] by (rule if_not_P)
    with assms show ?thesis
      by (simp add: is_ascii_letter_def n_def [symmetric])
  qed
qed

lemma repr_char_letter:
  assumes "is_ascii_letter c" and "quote = CHR 0x27 \<or> quote = CHR 0x22"
  shows "repr_char quote c = [c]"
proof -
  have ne: "c \<noteq> d" if "\<not> is_ascii_letter d" for d
    using that assms(1) by auto
  have "c \<noteq> CHR 0x27" "c \<noteq> CHR 0x22" "c \<noteq> CHR 0x5C" "c \<noteq> CHR 0x09" "c \<noteq> CHR 0x0A"
    "c \<noteq> CHR 0x0D"
    by (rule ne, simp add: is_ascii_letter_def)+
  moreover from assms(1) have "is_printable c"
    by (auto simp: is_ascii_letter_def is_printable_def Let_def)
  ultimately show ?thesis
    using assms(2) by (auto simp: repr_char_def)
qed

lemma letters_of_height:
  assumes "lower s = ''height''"
  shows "\<forall>c\<in>set s. is_ascii_letter c"
proof
  fix c assume "c \<in> set s"
  then have "lower_char c \<in> set (lower s)" by (auto simp: lower_def)
  with assms have "lower_char c \<in> set ''height''" by simp
  then have "97 \<le> (of_char (lower_char c) :: nat) \<and> (of_char (lower_char c) :: nat) \<le> 122"
    by auto
  then show "is_ascii_letter c" by (simp add: lower_char_small)
qed

lemma concat_repr_letters:
  assumes "\<forall>c\<in>set s. is_ascii_letter c" and "quote = CHR 0x27 \<or> quote = CHR 0x22"
  shows "concat (map (repr_char quote) s) = s"
  using assms(1)
  by (induction s) (simp_all add: repr_char_letter [OF _ assms(2)])

lemma repr_str_keeps_height:
  assumes "contains (lower k) ''height''"
  shows "contains (lower (repr_str k)) ''height''"
proof -
  define hs where "hs = ''height''"
  from assms obtain pre post where "lower k = pre @ hs @ post"
    by (auto simp: contains_iff hs_def)
  then have "map lower_char k = pre @ (hs @ post)" by (simp add: lower_def)
  from this [THEN map_eq_append_conv [THEN iffD1]]
  obtain k1 kr where k1: "k = k1 @ kr" and "map lower_char kr = hs @ post"
    by auto
  from this(2) [THEN map_eq_append_conv [THEN iffD1]]
  obtain k2 k3 where "kr = k2 @ k3" and "map lower_char k2 = hs"
    by auto
  with k1 have k: "k = k1 @ k2 @ k3" and k2: "map lower_char k2 = ''height''"
    by (simp_all add: hs_def)
  from k2 have letters: "\<forall>c\<in>set k2. is_ascii_letter c"
    by (intro letters_of_height) (simp add: lower_def)
  define quote where
    "quote = (if CHR 0x27 \<in> set k \<and> CHR 0x22 \<notin> set k then CHR 0x22 else CHR 0x27)"
  have q: "quote = CHR 0x27 \<or> quote = CHR 0x22" by (simp add: quote_def)
  have "repr_str k = quote # concat (map (repr_char quote) k) @ [quote]"
    by (simp add: repr_str_def quote_def Let_def)
  moreover have "concat (map (repr_char quote) k)
                 = concat (map (repr_char quote) k1) @ k2 @ concat (map (repr_char quote) k3)"
    using concat_repr_letters [OF letters q] by (simp add: k)
  ultimately have eq: "repr_str k = (quote # concat (map (repr_char quote) k1)) @ k2
                     @ (concat (map (repr_char quote) k3) @ [quote])"
    by simp
  have "contains (lower k2) ''height''"
    using k2 by (simp add: lower_def contains_iff) (metis append_Nil append_Nil2)
  then have "contains (lower (quote # concat (map (repr_char quote) k1)) @ lower k2
                       @ lower (concat (map (repr_char quote) k3) @ [quote])) ''height''"
    by (rule contains_embed)
  then show ?thesis
    by (simp only: eq lower_append)
qed

lemma join_member:
  assumes "x \<in> set xs"
  shows "\<exists>a b. join sep xs = a @ x @ b"
  using assms
proof (induction sep xs rule: join.induct)
  case (1 sep)
  then show ?case by simp
next
  case (2 sep y)
  then have "join sep [y] = [] @ x @ []" by simp
  then show ?case by blast
next
  case (3 sep y z zs)
  show ?case
  proof (cases "x = y")
    case True
    then have "join sep (y # z # zs) = [] @ x @ (sep @ join sep (z # zs))" by simp
    then show ?thesis by blast
  next
    case False
    with 3 obtain a b where "join sep (z # zs) = a @ x @ b" by auto
    then have "join sep (y # z # zs) = (y @ sep @ a) @ x @ b" by simp
    then show ?thesis by blast
  qed
qed

lemma dict_text_mentions_key:
  assumes "(k, v) \<in> set props" and "contains (lower k) ''height''"
  shows "contains (lower (py_str fo (VDict props))) ''height''"
proof -
  let ?item = "\<lambda>(k, v). repr_str k @ '': '' @ py_repr fo v"
  from assms(1) have "?item (k, v) \<in> set (map ?item props)" by force
  from join_member [OF this, of "'', ''"] obtain a b where
    "join '', '' (map ?item props) = a @ (repr_str k @ '': '' @ py_repr fo v) @ b"
    by auto
  then have "py_str fo (VDict props)
             = (''{'' @ a) @ repr_str k @ ('': '' @ py_repr fo v @ b @ ''}'')"
    by simp
  moreover have "contains (lower (repr_str k)) ''height''"
    using assms(2) by (rule repr_str_keeps_height)
  ultimately show ?thesis
    by (simp only: lower_append contains_embed)
qed

lemma scan_properties_Some:
  assumes "scan_properties props = Some h"
  shows "\<exists>k v. (k, v) \<in> set props \<and> contains (lower k) ''height'' \<and> as_number v = Some h"
  using assms
proof (induction props)
  case Nil
  then show ?case by simp
next
  case (Cons kv props)
  obtain k v where kv: "kv = (k, v)" by (cases kv)
  show ?case
  proof (cases "contains (lower k) ''height'' \<and> as_number v \<noteq> None")
    case True
    with Cons.prems kv have "as_number v = Some h" by auto
    with True kv show ?thesis by auto
  next
    case False
    with Cons.prems kv have "scan_properties props = Some h"
      by (auto split: if_splits option.splits)
    from Cons.IH [OF this] show ?thesis by auto
  qed
qed

lemma scanned_group_mentions_height:
  assumes "scan_properties props = Some h"
  shows "contains (lower (py_str fo (VDict props))) ''height''"
  using scan_properties_Some [OF assms] dict_text_mentions_key by blast

lemma scan_psets_height:
  "fst (scan_psets fo ps (hv, found)) =
     foldl (\<lambda>height (pset_name, props).
              case scan_properties props of Some h \<Rightarrow> Some h | None \<Rightarrow> height) hv ps"
proof (induction ps arbitrary: hv found)
  case Nil
  then show ?case by simp
next
  case (Cons p ps)
  obtain n props where p: "p = (n, props)" by (cases p)
  show ?case
  proof (cases "scan_properties props")
    case None
    with Cons.IH p show ?thesis by simp
  next
    case (Some h)
    with Cons.IH p scanned_group_mentions_height [OF Some, of fo] show ?thesis by simp
  qed
qed

lemma discover_height_foldl:
  "discover_height fo ps =
     foldl (\<lambda>height (pset_name, props).
              case scan_properties props of Some h \<Rightarrow> Some h | None \<Rightarrow> height) None ps"
  by (simp add: discover_height_def scan_psets_height)

text \<open>So the test on the text of a group never hides a numeric height property, and the
  outer loop, which never stops early, leaves the height of the last group that has one.\<close>

lemma discover_height_from_group:
  assumes "scan_properties props = Some h"
    and "list_all (\<lambda>(name, later_props). scan_properties later_props = None) later"
  shows "discover_height fo (earlier @ (pset_name, props) # later) = Some h"
proof -
  have "foldl (\<lambda>height (pset_name, props).
                 case scan_properties props of Some h \<Rightarrow> Some h | None \<Rightarrow> height) hv later = hv"
    for hv
    using assms(2) by (induction later arbitrary: hv) auto
  with assms(1) show ?thesis
    by (simp add: discover_height_foldl)
qed

lemma discover_height_last_group:
  assumes "scan_properties props = Some h"
  shows "discover_height fo (ps @ [(pset_name, props)]) = Some h"
  using assms by (simp add: discover_height_foldl)

lemma discover_height_single_group:
  "discover_height fo [(pset_name, props)] = scan_properties props"
  by (cases "scan_properties props") (simp_all add: discover_height_foldl)

text \<open>Within one group the first property counts whose name contains "height" and whose
  value is a number.\<close>

lemma scan_properties_first:
  assumes "contains (lower k) ''height''" and "as_number v = Some h"
    and "list_all (\<lambda>(k', v'). \<not> contains (lower k') ''height'' \<or> as_number v' = None) before"
  shows "scan_properties (before @ (k, v) # rest) = Some h"
  using assms(3)
proof (induction before)
  case Nil
  from assms(1,2) show ?case by simp
next
  case (Cons kv before)
  then show ?case by (cases kv) auto
qed

text \<open>
  C2. The claim: scanning of further groups stops once a numeric height is found, so with
  a numeric height key in several groups the height of the earliest such group is used.
  The function does otherwise. For the space \<open>two_heights\<close>, with \<^verbatim>\<open>Height\<close> 2000 in the
  first property set and 3000 in the second, the first set alone yields 2000, yet the
  height discovered is 3000, and the commercial space passes the 2800 minimum that 2000
  would fail.
\<close>

theorem C2_later_group_replaces_height:
  "scan_properties (snd (psets two_heights ! 0)) = Some (NInt 2000) \<and>
   discover_height whole_floats (psets two_heights) = Some (NInt 3000) \<and>
   check_room_heights whole_floats \<lparr>ifc_spaces = [two_heights], ifc_storeys = []\<rparr> Map.empty =
     Inr [\<lparr>element_id = None, element_type = ''IfcSpace'',
           element_name = ''Office 104'', element_name_long = None,
           check_status = ''pass'', actual_value = ''3000mm'',
           required_value = ''>= 2800mm (Commercial)'', comment = None,
           log = Some ''use_type=Commercial, properties_checked=True''\<rparr>,
          \<lparr>element_id = None, element_type = ''Summary'',
           element_name = ''Room Heights Check Summary'', element_name_long = None,
           check_status = ''pass'', actual_value = ''1 pass, 0 fail, 0 warning'',
           required_value = ''All 1 spaces meet minimum height requirements'',
           comment =
             Some ''Checked 1 space(s): 1 compliant, 0 non-compliant, 0 with missing data'',
           log = None\<rparr>]"
  by (simp add: example_defs run_simps)

text \<open>
  C10. A boolean under a "height" key passes \<^verbatim>\<open>isinstance(v, (int, float))\<close> and is used
  as the height when discovery lands on it (by \<open>scan_properties_first\<close> and
  \<open>discover_height_from_group\<close>: when it is the first numeric "height" property of the last
  group that has one). Then the record is never a \<^verbatim>\<open>warning\<close>, the actual value reads "1mm" for
  \<^verbatim>\<open>True\<close> and "0mm" for \<^verbatim>\<open>False\<close>, and the status is \<^verbatim>\<open>pass\<close> exactly when 1
  (for \<^verbatim>\<open>True\<close>) or 0 (for \<^verbatim>\<open>False\<close>) reaches the required height. Against an
  integer threshold \<open>t\<close> that is: \<^verbatim>\<open>fail\<close> exactly when \<open>t\<close> is above that 1 or 0. So
  \<^verbatim>\<open>False\<close> fails every positive threshold, and \<^verbatim>\<open>True\<close> fails every threshold above 1
  but passes a threshold of 1.
\<close>

theorem C10_boolean_height:
  assumes "check_room_heights fo m kwargs = Inr out"
    and "i < length (ifc_spaces m)"
    and "discover_height fo (psets (ifc_spaces m ! i)) = Some (NBool b)"
  shows
    "let s = ifc_spaces m ! i;
         r = out ! i;
         required = (if is_residential fo (psets s) (space_name_of s)
                     then kwargs_get kwargs ''residential_min_height'' (VInt 2700)
                     else kwargs_get kwargs ''commercial_min_height'' (VInt 2800))
     in check_status r \<noteq> ''warning'' \<and>
        actual_value r = (if b then ''1mm'' else ''0mm'') \<and>
        (\<exists>T. as_number required = Some T \<and>
           (check_status r = ''pass'' \<longleftrightarrow> num_ge fo (NInt (if b then 1 else 0)) T) \<and>
           (check_status r = ''fail'' \<longleftrightarrow> \<not> num_ge fo (NInt (if b then 1 else 0)) T)) \<and>
        (\<forall>t. required = VInt t \<longrightarrow>
           (check_status r = ''pass'' \<longleftrightarrow> t \<le> (if b then 1 else 0)) \<and>
           (check_status r = ''fail'' \<longleftrightarrow> (if b then 1 else 0) < t))"
proof -
  define s where "s = ifc_spaces m ! i"
  define required where
    "required = (if is_residential fo (psets s) (space_name_of s)
                 then kwargs_get kwargs ''residential_min_height'' (VInt 2700)
                 else kwargs_get kwargs ''commercial_min_height'' (VInt 2800))"
  have ge: "num_ge fo (NBool b) T = num_ge fo (NInt (if b then 1 else 0)) T" for T
    by (simp add: num_ge_def)
  from record_verdict [OF assms(1,2)] assms(3)
  obtain T ht where
    T: "as_number required = Some T" and ht: "format_0f fo (NBool b) = Inr ht"
    and st: "check_status (out ! i) = ''pass'' \<longleftrightarrow> num_ge fo (NBool b) T"
      "check_status (out ! i) = ''fail'' \<longleftrightarrow> \<not> num_ge fo (NBool b) T"
    and av: "actual_value (out ! i) = ht @ ''mm''"
    unfolding Let_def s_def [symmetric] required_def [symmetric] by auto
  from ht have "ht = (if b then ''1'' else ''0'')"
    by (simp add: format_0f_bool)
  with av have av': "actual_value (out ! i) = (if b then ''1mm'' else ''0mm'')"
    by simp
  from st have nw: "check_status (out ! i) \<noteq> ''warning''"
    by (cases "num_ge fo (NBool b) T") simp_all
  have ints: "(check_status (out ! i) = ''pass'' \<longleftrightarrow> t \<le> (if b then 1 else 0)) \<and>
           (check_status (out ! i) = ''fail'' \<longleftrightarrow> (if b then 1 else 0) < t)"
    if "required = VInt t" for t
    using that T st by (auto simp: ge)
  from T st nw av' ints show ?thesis
    unfolding Let_def s_def [symmetric] required_def [symmetric] ge by blast
qed

theorem C10_boolean_height_witness:
  "check_room_heights whole_floats \<lparr>ifc_spaces = [flagged], ifc_storeys = []\<rparr> Map.empty
     = Inr [\<lparr>element_id = None, element_type = ''IfcSpace'',
            element_name = ''Bedroom 5'', element_name_long = None,
            check_status = ''fail'', actual_value = ''1mm'',
            required_value = ''>= 2700mm (Residential)'',
            comment =
              Some ''Space height 1mm is below required minimum 2700mm for Residential'',
            log = Some ''use_type=Residential, properties_checked=True''\<rparr>,
           \<lparr>element_id = None, element_type = ''Summary'',
            element_name = ''Room Heights Check Summary'', element_name_long = None,
            check_status = ''fail'', actual_value = ''0 pass, 1 fail, 0 warning'',
            required_value = ''All 1 spaces meet minimum height requirements'',
            comment =
              Some ''Checked 1 space(s): 0 compliant, 1 non-compliant, 0 with missing data'',
            log = None\<rparr>] \<and>
   discover_height whole_floats (psets flagged) = Some (NBool True) \<and>
   (1::int) < 2700"
proof -
  let ?out = "[\<lparr>element_id = None, element_type = ''IfcSpace'',
            element_name = ''Bedroom 5'', element_name_long = None,
            check_status = ''fail'', actual_value = ''1mm'',
            required_value = ''>= 2700mm (Residential)'',
            comment =
              Some ''Space height 1mm is below required minimum 2700mm for Residential'',
            log = Some ''use_type=Residential, properties_checked=True''\<rparr>,
           \<lparr>element_id = None, element_type = ''Summary'',
            element_name = ''Room Heights Check Summary'', element_name_long = None,
            check_status = ''fail'', actual_value = ''0 pass, 1 fail, 0 warning'',
            required_value = ''All 1 spaces meet minimum height requirements'',
            comment =
              Some ''Checked 1 space(s): 0 compliant, 1 non-compliant, 0 with missing data'',
            log = None\<rparr>]"
  have run: "check_room_heights whole_floats \<lparr>ifc_spaces = [flagged], ifc_storeys = []\<rparr> Map.empty
     = Inr ?out"
    by (simp add: example_defs run_simps)
  have i: "(0::nat) < length (ifc_spaces \<lparr>ifc_spaces = [flagged], ifc_storeys = ([] :: int storey list)\<rparr>)"
    by simp
  have h: "discover_height whole_floats
             (psets (ifc_spaces \<lparr>ifc_spaces = [flagged], ifc_storeys = ([] :: int storey list)\<rparr> ! 0))
           = Some (NBool True)"
    by (simp add: example_heights)
  from C10_boolean_height [OF run i h] run h show ?thesis
    by simp
qed

text \<open>The claim C10 as stated has both booleans below any positive threshold. With the
  residential minimum set to 1, the bedroom whose \<^verbatim>\<open>Height\<close> is \<^verbatim>\<open>True\<close> passes.\<close>

theorem C10_counterexample:
  "discover_height whole_floats (psets flagged) = Some (NBool True) \<and>
   check_room_heights whole_floats \<lparr>ifc_spaces = [flagged], ifc_storeys = []\<rparr>
       [''residential_min_height'' \<mapsto> VInt 1] =
     Inr [\<lparr>element_id = None, element_type = ''IfcSpace'',
           element_name = ''Bedroom 5'', element_name_long = None,
           check_status = ''pass'', actual_value = ''1mm'',
           required_value = ''>= 1mm (Residential)'', comment = None,
           log = Some ''use_type=Residential, properties_checked=True''\<rparr>,
          \<lparr>element_id = None, element_type = ''Summary'',
           element_name = ''Room Heights Check Summary'', element_name_long = None,
           check_status = ''pass'', actual_value = ''1 pass, 0 fail, 0 warning'',
           required_value = ''All 1 spaces meet minimum height requirements'',
           comment =
             Some ''Checked 1 space(s): 1 compliant, 0 non-compliant, 0 with missing data'',
           log = None\<rparr>]"
  by (simp add: example_defs run_simps)

subsection \<open>Use type\<close>

lemma residential_in_psets_iff:
  "residential_in_psets fo ps =
     list_ex (\<lambda>(pset_name, props).
                contains (lower (py_str fo (VDict props))) ''residential'' \<or>
                contains (lower (py_str fo (VDict props))) ''dwelling'') ps"
  by (induction ps) (auto simp: Let_def split: if_splits)

lemma is_residential_iff:
  "is_residential fo ps display_name \<longleftrightarrow>
     list_ex (\<lambda>(pset_name, props).
                contains (lower (py_str fo (VDict props))) ''residential'' \<or>
                contains (lower (py_str fo (VDict props))) ''dwelling'') ps \<or>
     list_ex (\<lambda>keyword. contains (lower display_name) keyword)
       [''residential'', ''dwelling'', ''apartment'', ''bedroom'', ''family'']"
proof (cases "display_name = []")
  case True
  then show ?thesis
    by (cases ps) (simp_all add: is_residential_def residential_in_psets_iff lower_def)
next
  case False
  then show ?thesis
    by (cases ps)
       (auto simp: is_residential_def residential_in_psets_iff residential_terms_def Let_def)
qed

lemma use_type_of_spec:
  "use_type_of (is_residential fo ps display_name) = spec_use_type fo ps display_name"
  unfolding is_residential_iff by (simp add: use_type_of_def spec_use_type_def)

lemma spec_use_type_residential:
  "spec_use_type fo ps display_name = ''Residential'' \<longleftrightarrow> is_residential fo ps display_name"
  unfolding use_type_of_spec [symmetric] by (simp add: use_type_of_def)

text \<open>
  C4. The classification of the function is the one the specification words: Residential
  if some property group's text contains "residential" or "dwelling", else Residential if
  the display name contains one of the five keywords, else Commercial. In particular a
  space whose property groups mention "dwelling" is residential whatever its name. In a
  call that returns, the record of space \<open>i\<close> carries this use type in its log and in its
  required value, next to the threshold of that use type.
\<close>

theorem C4_use_type_precedence:
  "use_type_of (is_residential fo ps display_name) = spec_use_type fo ps display_name \<and>
   (list_ex (\<lambda>(pset_name, props). contains (lower (py_str fo (VDict props))) ''dwelling'') ps
      \<longrightarrow> is_residential fo ps display_name) \<and>
   (check_room_heights fo m kwargs = Inr out \<and> i < length (ifc_spaces m) \<longrightarrow>
      (let s = ifc_spaces m ! i;
           use_type = spec_use_type fo (psets s) (space_name_of s)
       in log (out ! i) = Some (''use_type='' @ use_type @ '', properties_checked=True'') \<and>
          required_value (out ! i) =
            ''>= '' @ py_str fo (if use_type = ''Residential''
                                 then kwargs_get kwargs ''residential_min_height'' (VInt 2700)
                                 else kwargs_get kwargs ''commercial_min_height'' (VInt 2800))
            @ ''mm ('' @ use_type @ '')''))"
proof (intro conjI impI)
  show "use_type_of (is_residential fo ps display_name) = spec_use_type fo ps display_name"
    by (rule use_type_of_spec)
next
  assume "list_ex (\<lambda>(pset_name, props). contains (lower (py_str fo (VDict props))) ''dwelling'') ps"
  then have "list_ex (\<lambda>(pset_name, props).
                contains (lower (py_str fo (VDict props))) ''residential'' \<or>
                contains (lower (py_str fo (VDict props))) ''dwelling'') ps"
    by (auto simp: list_ex_iff)
  then show "is_residential fo ps display_name"
    by (simp add: is_residential_iff)
next
  assume "check_room_heights fo m kwargs = Inr out \<and> i < length (ifc_spaces m)"
  then have "body_results fo (kwargs_get kwargs ''residential_min_height'' (VInt 2700))
           (kwargs_get kwargs ''commercial_min_height'' (VInt 2800)) (ifc_spaces m ! i)
         = Inr [out ! i]"
    by (simp add: nth_run)
  from body_results_fields(3,4) [OF this]
  show "let s = ifc_spaces m ! i;
           use_type = spec_use_type fo (psets s) (space_name_of s)
       in log (out ! i) = Some (''use_type='' @ use_type @ '', properties_checked=True'') \<and>
          required_value (out ! i) =
            ''>= '' @ py_str fo (if use_type = ''Residential''
                                 then kwargs_get kwargs ''residential_min_height'' (VInt 2700)
                                 else kwargs_get kwargs ''commercial_min_height'' (VInt 2800))
            @ ''mm ('' @ use_type @ '')''"
    by (simp add: Let_def use_type_of_spec spec_use_type_residential)
qed

theorem C4_use_type_precedence_witness:
  "spec_use_type whole_floats (psets flat) (space_name_of flat) = ''Residential'' \<and>
   is_residential whole_floats (psets flat) (space_name_of flat) \<and>
   \<not> list_ex (\<lambda>keyword. contains (lower (space_name_of flat)) keyword)
       [''residential'', ''dwelling'', ''apartment'', ''bedroom'', ''family''] \<and>
   log (example_output ! 2) = Some ''use_type=Residential, properties_checked=True'' \<and>
   required_value (example_output ! 2) = ''>= 2700mm (Residential)''"
proof -
  have dwelling:
    "list_ex (\<lambda>(pset_name, props). contains (lower (py_str whole_floats (VDict props))) ''dwelling'')
       (psets flat)"
    by (simp add: example_defs run_simps)
  have i: "(2::nat) < length (ifc_spaces example_model)"
    by (simp add: example_model_def)
  have name: "\<not> list_ex (\<lambda>keyword. contains (lower (space_name_of flat)) keyword)
       [''residential'', ''dwelling'', ''apartment'', ''bedroom'', ''family'']"
    by (simp add: example_defs run_simps)
  from C4_use_type_precedence
    [of whole_floats "psets flat" "space_name_of flat" example_model Map.empty example_output 2]
    dwelling i example_run
  have res: "is_residential whole_floats (psets flat) (space_name_of flat)"
    and ut: "use_type_of (is_residential whole_floats (psets flat) (space_name_of flat))
             = spec_use_type whole_floats (psets flat) (space_name_of flat)"
    and run: "let s = ifc_spaces example_model ! 2;
                  use_type = spec_use_type whole_floats (psets s) (space_name_of s)
              in log (example_output ! 2)
                   = Some (''use_type='' @ use_type @ '', properties_checked=True'') \<and>
                 required_value (example_output ! 2) =
                   ''>= '' @ py_str whole_floats
                      (if use_type = ''Residential''
                       then kwargs_get Map.empty ''residential_min_height'' (VInt 2700)
                       else kwargs_get Map.empty ''commercial_min_height'' (VInt 2800))
                   @ ''mm ('' @ use_type @ '')''"
    by blast+
  from ut res have spec: "spec_use_type whole_floats (psets flat) (space_name_of flat) = ''Residential''"
    by (simp add: use_type_of_def)
  have "ifc_spaces example_model ! 2 = flat"
    by (simp add: example_model_def)
  with run spec have
    "log (example_output ! 2) = Some ''use_type=Residential, properties_checked=True''"
    "required_value (example_output ! 2) = ''>= 2700mm (Residential)''"
    by (simp_all add: Let_def kwargs_get_def str_of_int_def digit_char_def str_of_nat.simps char_of_eq_iff
        char_of_eq_iff2)
  with spec res name show ?thesis by simp
qed

subsection \<open>Threshold overrides\<close>

text \<open>
  C3, as the function has it. An absent \<^verbatim>\<open>residential_min_height\<close> or
  \<^verbatim>\<open>commercial_min_height\<close> is the default 2700 or 2800, and \<^verbatim>\<open>sloped_min_height\<close>,
  absent or of any value, changes nothing. A value that is supplied is used as it is,
  numeric or not: the required value of every record prints it, and when it is not a
  number the call raises as soon as a space it applies to has a discovered height.
\<close>

theorem C3_threshold_overrides:
  "(kwargs ''residential_min_height'' = None \<longrightarrow>
      check_room_heights fo m kwargs
        = check_room_heights fo m (kwargs(''residential_min_height'' \<mapsto> VInt 2700))) \<and>
   (kwargs ''commercial_min_height'' = None \<longrightarrow>
      check_room_heights fo m kwargs
        = check_room_heights fo m (kwargs(''commercial_min_height'' \<mapsto> VInt 2800))) \<and>
   check_room_heights fo m (kwargs(''sloped_min_height'' := sloped))
     = check_room_heights fo m kwargs \<and>
   (i < length (ifc_spaces m) \<longrightarrow>
      (let s = ifc_spaces m ! i;
           required = (if is_residential fo (psets s) (space_name_of s)
                       then kwargs_get kwargs ''residential_min_height'' (VInt 2700)
                       else kwargs_get kwargs ''commercial_min_height'' (VInt 2800))
       in (\<forall>out. check_room_heights fo m kwargs = Inr out \<longrightarrow>
             required_value (out ! i) =
               ''>= '' @ py_str fo required @ ''mm (''
               @ use_type_of (is_residential fo (psets s) (space_name_of s)) @ '')'') \<and>
          (as_number required = None \<and> discover_height fo (psets s) \<noteq> None \<longrightarrow>
             (\<exists>e. check_room_heights fo m kwargs = Inl e))))"
proof (intro conjI impI)
  assume "kwargs ''residential_min_height'' = None"
  then have "kwargs_get (kwargs(''residential_min_height'' \<mapsto> VInt 2700)) ''residential_min_height''
               (VInt 2700) = kwargs_get kwargs ''residential_min_height'' (VInt 2700)"
    "kwargs_get (kwargs(''residential_min_height'' \<mapsto> VInt 2700)) ''commercial_min_height''
               (VInt 2800) = kwargs_get kwargs ''commercial_min_height'' (VInt 2800)"
    by (simp_all add: kwargs_get_def)
  then show "check_room_heights fo m kwargs
        = check_room_heights fo m (kwargs(''residential_min_height'' \<mapsto> VInt 2700))"
    by (cases "ifc_spaces m = []")
       (simp_all add: check_room_heights_empty check_room_heights_nonempty)
next
  assume "kwargs ''commercial_min_height'' = None"
  then have "kwargs_get (kwargs(''commercial_min_height'' \<mapsto> VInt 2800)) ''residential_min_height''
               (VInt 2700) = kwargs_get kwargs ''residential_min_height'' (VInt 2700)"
    "kwargs_get (kwargs(''commercial_min_height'' \<mapsto> VInt 2800)) ''commercial_min_height''
               (VInt 2800) = kwargs_get kwargs ''commercial_min_height'' (VInt 2800)"
    by (simp_all add: kwargs_get_def)
  then show "check_room_heights fo m kwargs
        = check_room_heights fo m (kwargs(''commercial_min_height'' \<mapsto> VInt 2800))"
    by (cases "ifc_spaces m = []")
       (simp_all add: check_room_heights_empty check_room_heights_nonempty)
next
  have "kwargs_get (kwargs(''sloped_min_height'' := sloped)) ''residential_min_height''
               (VInt 2700) = kwargs_get kwargs ''residential_min_height'' (VInt 2700)"
    "kwargs_get (kwargs(''sloped_min_height'' := sloped)) ''commercial_min_height''
               (VInt 2800) = kwargs_get kwargs ''commercial_min_height'' (VInt 2800)"
    by (simp_all add: kwargs_get_def)
  then show "check_room_heights fo m (kwargs(''sloped_min_height'' := sloped))
     = check_room_heights fo m kwargs"
    by (cases "ifc_spaces m = []")
       (simp_all add: check_room_heights_empty check_room_heights_nonempty)
next
  assume i: "i < length (ifc_spaces m)"
  define s where "s = ifc_spaces m ! i"
  define required where
    "required = (if is_residential fo (psets s) (space_name_of s)
                 then kwargs_get kwargs ''residential_min_height'' (VInt 2700)
                 else kwargs_get kwargs ''commercial_min_height'' (VInt 2800))"
  have body: "body_results fo (kwargs_get kwargs ''residential_min_height'' (VInt 2700))
           (kwargs_get kwargs ''commercial_min_height'' (VInt 2800)) s = Inr [out ! i]"
    if "check_room_heights fo m kwargs = Inr out" for out
    using nth_run [OF that i] by (simp add: s_def)
  have shown: "required_value (out ! i) =
               ''>= '' @ py_str fo required @ ''mm (''
               @ use_type_of (is_residential fo (psets s) (space_name_of s)) @ '')''"
    if "check_room_heights fo m kwargs = Inr out" for out
    using body_results_fields(3) [OF body [OF that]] by (simp add: required_def)
  have raises: "\<exists>e. check_room_heights fo m kwargs = Inl e"
    if non: "as_number required = None" and h: "discover_height fo (psets s) \<noteq> None"
  proof (cases "check_room_heights fo m kwargs")
    case (Inl e)
    then show ?thesis by blast
  next
    case (Inr out)
    from h obtain H where "discover_height fo (psets s) = Some H" by auto
    with body_results_record [OF body [OF Inr]] non show ?thesis
      by (auto simp: required_def)
  qed
  from shown raises
  show "let s = ifc_spaces m ! i;
           required = (if is_residential fo (psets s) (space_name_of s)
                       then kwargs_get kwargs ''residential_min_height'' (VInt 2700)
                       else kwargs_get kwargs ''commercial_min_height'' (VInt 2800))
       in (\<forall>out. check_room_heights fo m kwargs = Inr out \<longrightarrow>
             required_value (out ! i) =
               ''>= '' @ py_str fo required @ ''mm (''
               @ use_type_of (is_residential fo (psets s) (space_name_of s)) @ '')'') \<and>
          (as_number required = None \<and> discover_height fo (psets s) \<noteq> None \<longrightarrow>
             (\<exists>e. check_room_heights fo m kwargs = Inl e))"
    unfolding Let_def s_def [symmetric] required_def [symmetric] by blast
qed

theorem C3_threshold_overrides_witness:
  "check_room_heights whole_floats example_model [''residential_min_height'' \<mapsto> VInt 2700]
     = Inr example_output \<and>
   check_room_heights whole_floats example_model [''commercial_min_height'' \<mapsto> VInt 2800]
     = Inr example_output \<and>
   check_room_heights whole_floats example_model [''sloped_min_height'' \<mapsto> VStr ''high'']
     = Inr example_output \<and>
   required_value (example_output ! 1) = ''>= 2700mm (Residential)'' \<and>
   (\<exists>e. check_room_heights whole_floats example_model
           [''residential_min_height'' \<mapsto> VStr ''high''] = Inl e)"
proof -
  have i: "(1::nat) < length (ifc_spaces example_model)"
    by (simp add: example_model_def)
  have s: "ifc_spaces example_model ! 1 = bedroom"
    by (simp add: example_model_def)
  note a = C3_threshold_overrides [of Map.empty whole_floats example_model "Some (VStr ''high'')" 1]
  note b = C3_threshold_overrides
    [of "[''residential_min_height'' \<mapsto> VStr ''high'']" whole_floats example_model None 1]
  have e1:
    "check_room_heights whole_floats example_model Map.empty =
     check_room_heights whole_floats example_model [''residential_min_height'' \<mapsto> VInt 2700]"
    using a [THEN conjunct1] by simp
  have e2:
    "check_room_heights whole_floats example_model Map.empty =
     check_room_heights whole_floats example_model [''commercial_min_height'' \<mapsto> VInt 2800]"
    using a [THEN conjunct2, THEN conjunct1] by simp
  have e3:
    "check_room_heights whole_floats example_model [''sloped_min_height'' \<mapsto> VStr ''high''] =
     check_room_heights whole_floats example_model Map.empty"
    using a [THEN conjunct2, THEN conjunct2, THEN conjunct1] by simp
  from e1 e2 e3 example_run have
    "check_room_heights whole_floats example_model [''residential_min_height'' \<mapsto> VInt 2700]
       = Inr example_output \<and>
     check_room_heights whole_floats example_model [''commercial_min_height'' \<mapsto> VInt 2800]
       = Inr example_output \<and>
     check_room_heights whole_floats example_model [''sloped_min_height'' \<mapsto> VStr ''high'']
       = Inr example_output"
    by metis
  moreover have "required_value (example_output ! 1) = ''>= 2700mm (Residential)''"
    using a [THEN conjunct2, THEN conjunct2, THEN conjunct2] i s example_run
    by (simp add: Let_def example_use_types kwargs_get_def use_type_of_def str_of_int_def
        str_of_nat.simps digit_char_def char_of_eq_iff char_of_eq_iff2)
  moreover have
    "\<exists>e. check_room_heights whole_floats example_model
           [''residential_min_height'' \<mapsto> VStr ''high''] = Inl e"
    using b [THEN conjunct2, THEN conjunct2, THEN conjunct2] i s
    by (simp add: Let_def example_heights example_use_types kwargs_get_def)
  ultimately show ?thesis by blast
qed

text \<open>The claim C3 as stated has a non-numeric override behave as an absent one. With
  \<^verbatim>\<open>commercial_min_height="high"\<close> the record of the office reads \<^verbatim>\<open>>= highmm\<close>, not
  \<^verbatim>\<open>>= 2800mm\<close>; with \<^verbatim>\<open>residential_min_height="high"\<close> the call on the bedroom raises
  \<^verbatim>\<open>TypeError\<close>, which the call without the key does not.\<close>

theorem C3_counterexample:
  "as_number (VStr ''high'' :: int pyval) = None \<and>
   check_room_heights whole_floats \<lparr>ifc_spaces = [office], ifc_storeys = []\<rparr>
       [''commercial_min_height'' \<mapsto> VStr ''high''] \<noteq>
     check_room_heights whole_floats \<lparr>ifc_spaces = [office], ifc_storeys = []\<rparr> Map.empty \<and>
   check_room_heights whole_floats \<lparr>ifc_spaces = [bedroom], ifc_storeys = []\<rparr>
       [''residential_min_height'' \<mapsto> VStr ''high''] = Inl TypeError \<and>
   check_room_heights whole_floats \<lparr>ifc_spaces = [bedroom], ifc_storeys = []\<rparr> Map.empty \<noteq>
     Inl TypeError"
  by (simp add: example_defs run_simps)

text \<open>
  C8. Two calls whose models have the same spaces (the storeys and their elevations may
  differ at will) and whose keyword arguments agree on every key but
  \<^verbatim>\<open>sloped_min_height\<close> return the same result, or raise the same exception.
\<close>

theorem C8_sloped_and_storeys_inert:
  assumes "ifc_spaces m' = ifc_spaces m"
    and "\<forall>key. key \<noteq> ''sloped_min_height'' \<longrightarrow> kwargs' key = kwargs key"
  shows "check_room_heights fo m' kwargs' = check_room_heights fo m kwargs"
proof -
  from assms(2) have
    "kwargs_get kwargs' ''residential_min_height'' (VInt 2700)
       = kwargs_get kwargs ''residential_min_height'' (VInt 2700)"
    "kwargs_get kwargs' ''commercial_min_height'' (VInt 2800)
       = kwargs_get kwargs ''commercial_min_height'' (VInt 2800)"
    by (simp_all add: kwargs_get_def)
  with assms(1) show ?thesis
    by (cases "ifc_spaces m = []")
       (simp_all add: check_room_heights_empty check_room_heights_nonempty split: sum.splits)
qed

theorem C8_sloped_and_storeys_inert_witness:
  "check_room_heights whole_floats
     (example_model\<lparr>ifc_storeys := [\<lparr>storey_id = 1, Elevation = VFloat 3100\<rparr>]\<rparr>)
     [''sloped_min_height'' \<mapsto> VInt 2400]
   = Inr example_output"
proof -
  have "ifc_spaces (example_model\<lparr>ifc_storeys := [\<lparr>storey_id = 1, Elevation = VFloat 3100\<rparr>]\<rparr>)
        = ifc_spaces example_model"
    by simp
  moreover have "\<forall>key. key \<noteq> ''sloped_min_height'' \<longrightarrow>
      ([''sloped_min_height'' \<mapsto> VInt 2400] :: string \<rightharpoonup> int pyval) key = Map.empty key"
    by simp
  ultimately show ?thesis
    using C8_sloped_and_storeys_inert
      [of "example_model\<lparr>ifc_storeys := [\<lparr>storey_id = 1, Elevation = VFloat 3100\<rparr>]\<rparr>"
          example_model "[''sloped_min_height'' \<mapsto> VInt 2400]" Map.empty whole_floats]
      example_run
    by simp
qed

subsection \<open>Counters, cardinality, statuses\<close>

text \<open>
  C5. For a model with at least one space and a call that returns: over the records that
  are not the summary, the numbers of \<^verbatim>\<open>pass\<close>, \<^verbatim>\<open>fail\<close> and \<^verbatim>\<open>warning\<close> add up to the
  number of spaces; the last record is the summary, its status is \<^verbatim>\<open>fail\<close> exactly when
  the number of \<^verbatim>\<open>fail\<close> is positive and \<^verbatim>\<open>pass\<close> exactly when it is zero, and its actual
  value is these three numbers in the form "N pass, M fail, K warning".
\<close>

theorem C5_counter_consistency:
  assumes "check_room_heights fo m kwargs = Inr out" and "ifc_spaces m \<noteq> []"
  shows
    "let records = filter (\<lambda>r. element_type r \<noteq> ''Summary'') out;
         n_pass = count_status ''pass'' records;
         n_fail = count_status ''fail'' records;
         n_warning = count_status ''warning'' records;
         summary = last out
     in n_pass + n_fail + n_warning = length (ifc_spaces m) \<and>
        element_type summary = ''Summary'' \<and>
        (check_status summary = ''fail'' \<longleftrightarrow> 0 < n_fail) \<and>
        (check_status summary = ''pass'' \<longleftrightarrow> n_fail = 0) \<and>
        actual_value summary =
          str_of_nat n_pass @ '' pass, '' @ str_of_nat n_fail @ '' fail, ''
          @ str_of_nat n_warning @ '' warning''"
proof -
  from run_records [OF assms] obtain rs st where
    out: "out = rs @ [summary_record (length (ifc_spaces m)) st]"
    and len: "length rs = length (ifc_spaces m)"
    and recs: "\<forall>r\<in>set rs. element_type r = ''IfcSpace'' \<and>
              (check_status r = ''pass'' \<or> check_status r = ''fail''
               \<or> check_status r = ''warning'')"
    and counts: "passed_count st = count_status ''pass'' rs"
      "failed_count st = count_status ''fail'' rs"
      "warning_count st = count_status ''warning'' rs"
    by blast
  from recs have filt: "filter (\<lambda>r. element_type r \<noteq> ''Summary'') out = rs"
    unfolding out by (intro filter_space_records) simp
  from recs have total:
    "count_status ''pass'' rs + count_status ''fail'' rs + count_status ''warning'' rs = length rs"
    by (intro count_status_total) simp
  have last: "last out = summary_record (length (ifc_spaces m)) st"
    by (simp add: out)
  show ?thesis
    unfolding Let_def filt last
    using total len counts by (simp add: summary_record_def)
qed

theorem C5_counter_consistency_witness:
  "filter (\<lambda>r. element_type r \<noteq> ''Summary'') example_output = butlast example_output \<and>
   count_status ''pass'' (butlast example_output) = 1 \<and>
   count_status ''fail'' (butlast example_output) = 1 \<and>
   count_status ''warning'' (butlast example_output) = 1 \<and>
   length (ifc_spaces example_model) = 3 \<and>
   check_status (last example_output) = ''fail'' \<and>
   actual_value (last example_output) = ''1 pass, 1 fail, 1 warning''"
proof -
  have ne: "ifc_spaces example_model \<noteq> []"
    by (simp add: example_model_def)
  have f: "filter (\<lambda>r. element_type r \<noteq> ''Summary'') example_output = butlast example_output"
    by (simp add: example_output_def)
  have c: "count_status ''pass'' (butlast example_output) = 1"
    "count_status ''fail'' (butlast example_output) = 1"
    "count_status ''warning'' (butlast example_output) = 1"
    by (simp_all add: example_output_def count_status_def)
  from C5_counter_consistency [OF example_run ne] f c
  show ?thesis
    by (simp add: Let_def example_model_def digit_char_def str_of_nat.simps char_of_eq_iff char_of_eq_iff2)
qed

text \<open>
  C6. For a model without spaces the call returns, whatever the keyword arguments, exactly
  one record: the summary with status \<^verbatim>\<open>log\<close>, actual value "0 spaces found" and required
  value ">= 1 space". For a model with \<open>N >= 1\<close> spaces every result the call returns has
  \<open>N + 1\<close> records, the last tagged Summary; and the call does return when both thresholds
  are numbers and every discovered height can be formatted.
\<close>

theorem C6_cardinality:
  "(ifc_spaces m = [] \<longrightarrow>
      check_room_heights fo m kwargs =
        Inr [\<lparr>element_id = None, element_type = ''Summary'',
              element_name = ''Room Heights Check'', element_name_long = None,
              check_status = ''log'', actual_value = ''0 spaces found'',
              required_value = ''>= 1 space'',
              comment = Some ''No IfcSpace elements found in model'', log = None\<rparr>]) \<and>
   (ifc_spaces m \<noteq> [] \<longrightarrow>
      (\<forall>out. check_room_heights fo m kwargs = Inr out \<longrightarrow>
         length out = length (ifc_spaces m) + 1 \<and> element_type (last out) = ''Summary'') \<and>
      (as_number (kwargs_get kwargs ''residential_min_height'' (VInt 2700)) \<noteq> None \<and>
       as_number (kwargs_get kwargs ''commercial_min_height'' (VInt 2800)) \<noteq> None \<and>
       (\<forall>s\<in>set (ifc_spaces m). \<forall>H. discover_height fo (psets s) = Some H \<longrightarrow>
          (\<exists>ht. format_0f fo H = Inr ht))
       \<longrightarrow> (\<exists>out. check_room_heights fo m kwargs = Inr out)))"
proof (intro conjI impI allI)
  assume "ifc_spaces m = []"
  then show "check_room_heights fo m kwargs =
        Inr [\<lparr>element_id = None, element_type = ''Summary'',
              element_name = ''Room Heights Check'', element_name_long = None,
              check_status = ''log'', actual_value = ''0 spaces found'',
              required_value = ''>= 1 space'',
              comment = Some ''No IfcSpace elements found in model'', log = None\<rparr>]"
    by (simp add: check_room_heights_empty no_spaces_record_def)
next
  fix out
  assume ne: "ifc_spaces m \<noteq> []" and run: "check_room_heights fo m kwargs = Inr out"
  from run_records [OF run ne] obtain rs st where
    "out = rs @ [summary_record (length (ifc_spaces m)) st]"
    "length rs = length (ifc_spaces m)"
    by blast
  then show "length out = length (ifc_spaces m) + 1" "element_type (last out) = ''Summary''"
    by (simp_all add: summary_record_def)
next
  assume ne: "ifc_spaces m \<noteq> []"
    and ok: "as_number (kwargs_get kwargs ''residential_min_height'' (VInt 2700)) \<noteq> None \<and>
       as_number (kwargs_get kwargs ''commercial_min_height'' (VInt 2800)) \<noteq> None \<and>
       (\<forall>s\<in>set (ifc_spaces m). \<forall>H. discover_height fo (psets s) = Some H \<longrightarrow>
          (\<exists>ht. format_0f fo H = Inr ht))"
  then have "\<forall>s\<in>set (ifc_spaces m).
      \<exists>d. check_space fo (kwargs_get kwargs ''residential_min_height'' (VInt 2700))
             (kwargs_get kwargs ''commercial_min_height'' (VInt 2800)) s initial_state = Inr d"
    by (intro ballI body_results_returns) auto
  from check_spaces_returns [OF this, of initial_state] ne
  show "\<exists>out. check_room_heights fo m kwargs = Inr out"
    by (auto simp: check_room_heights_nonempty)
qed

theorem C6_cardinality_witness:
  "check_room_heights whole_floats example_model Map.empty = Inr example_output \<and>
   length example_output = length (ifc_spaces example_model) + 1 \<and>
   element_type (last example_output) = ''Summary'' \<and>
   (\<exists>out. check_room_heights whole_floats example_model Map.empty = Inr out) \<and>
   check_room_heights whole_floats (example_model\<lparr>ifc_spaces := []\<rparr>)
       [''residential_min_height'' \<mapsto> VStr ''high''] =
     Inr [\<lparr>element_id = None, element_type = ''Summary'',
           element_name = ''Room Heights Check'', element_name_long = None,
           check_status = ''log'', actual_value = ''0 spaces found'',
           required_value = ''>= 1 space'',
           comment = Some ''No IfcSpace elements found in model'', log = None\<rparr>]"
proof -
  have ne: "ifc_spaces example_model \<noteq> []"
    by (simp add: example_model_def)
  have e: "ifc_spaces (example_model\<lparr>ifc_spaces := []\<rparr>) = []"
    by simp
  have numbers:
    "as_number (kwargs_get Map.empty ''residential_min_height'' (VInt 2700 :: int pyval)) \<noteq> None"
    "as_number (kwargs_get Map.empty ''commercial_min_height'' (VInt 2800 :: int pyval)) \<noteq> None"
    by (simp_all add: kwargs_get_def)
  have formats:
    "\<forall>s\<in>set (ifc_spaces example_model). \<forall>H. discover_height whole_floats (psets s) = Some H \<longrightarrow>
          (\<exists>ht. format_0f whole_floats H = Inr ht)"
    by (simp add: example_model_def example_heights format_0f_exact format_0f_float)
  note c = C6_cardinality [of example_model whole_floats Map.empty]
  from c ne example_run
  have "length example_output = length (ifc_spaces example_model) + 1 \<and>
        element_type (last example_output) = ''Summary''"
    by blast
  moreover from c ne numbers formats
  have "\<exists>out. check_room_heights whole_floats example_model Map.empty = Inr out"
    by blast
  moreover from C6_cardinality
    [of "example_model\<lparr>ifc_spaces := []\<rparr>" whole_floats
        "[''residential_min_height'' \<mapsto> VStr ''high'']"] e
  have "check_room_heights whole_floats (example_model\<lparr>ifc_spaces := []\<rparr>)
       [''residential_min_height'' \<mapsto> VStr ''high''] =
     Inr [\<lparr>element_id = None, element_type = ''Summary'',
           element_name = ''Room Heights Check'', element_name_long = None,
           check_status = ''log'', actual_value = ''0 spaces found'',
           required_value = ''>= 1 space'',
           comment = Some ''No IfcSpace elements found in model'', log = None\<rparr>]"
    by blast
  ultimately show ?thesis
    using example_run by simp
qed

text \<open>
  C7. In every result the call returns, for every model and all keyword arguments, each
  record has one of the statuses \<^verbatim>\<open>pass\<close>, \<^verbatim>\<open>fail\<close>, \<^verbatim>\<open>warning\<close>, \<^verbatim>\<open>log\<close>, and each
  record that is not a summary (each record but the last) has the element type
  \<^verbatim>\<open>IfcSpace\<close>.
\<close>

theorem C7_closed_status_set:
  assumes "check_room_heights fo m kwargs = Inr out"
  shows "(\<forall>r\<in>set out. check_status r \<in> {''pass'', ''fail'', ''warning'', ''log''}) \<and>
         (\<forall>r\<in>set out. element_type r \<noteq> ''Summary'' \<longrightarrow> element_type r = ''IfcSpace'') \<and>
         (\<forall>r\<in>set (butlast out). element_type r = ''IfcSpace'')"
proof (cases "ifc_spaces m = []")
  case True
  with assms have "out = [no_spaces_record]"
    by (simp add: check_room_heights_empty)
  then show ?thesis
    by (simp add: no_spaces_record_def)
next
  case False
  from run_records [OF assms False] obtain rs st where
    out: "out = rs @ [summary_record (length (ifc_spaces m)) st]"
    and recs: "\<forall>r\<in>set rs. element_type r = ''IfcSpace'' \<and>
              (check_status r = ''pass'' \<or> check_status r = ''fail''
               \<or> check_status r = ''warning'')"
    by blast
  have s: "check_status (summary_record (length (ifc_spaces m)) st) \<in> {''pass'', ''fail''}"
    "element_type (summary_record (length (ifc_spaces m)) st) = ''Summary''"
    by (simp_all add: summary_record_def)
  from recs s show ?thesis
    unfolding out by auto
qed

theorem C7_closed_status_set_witness:
  "list_all (\<lambda>r. check_status r \<in> {''pass'', ''fail'', ''warning'', ''log''}) example_output \<and>
   map check_status example_output = [''warning'', ''fail'', ''pass'', ''fail''] \<and>
   map element_type example_output = [''IfcSpace'', ''IfcSpace'', ''IfcSpace'', ''Summary'']"
  using C7_closed_status_set [OF example_run]
  by (simp add: example_output_def list_all_iff)

end
